theory Spec2Isabelle
  imports Complex_Main "HOL-Library.Word" "HOL-Library.Log_Nat"
begin

section \<open>JavaScript strings\<close>

text \<open>
  A JavaScript string is a sequence of UTF-16 code units: \<open>length\<close> counts code units and
  \<open>slice\<close> cuts between them. The model keeps that: a string is a list of 16-bit words.
  \<open>js\<close> turns an ASCII literal of the source into such a list.
\<close>

type_synonym jsstring = "16 word list"

definition js :: "string \<Rightarrow> jsstring" where
  "js s = map (\<lambda>c. of_nat (of_char c)) s"

text \<open>
  \<open>String.prototype.trim\<close> removes, at both ends, the code units that ECMAScript calls
  WhiteSpace or LineTerminator: TAB, LF, VT, FF, CR, SP, NBSP, U+1680, U+2000 to U+200A,
  U+2028, U+2029, U+202F, U+205F, U+3000 and U+FEFF.
\<close>

definition isWhiteSpace :: "16 word \<Rightarrow> bool" where
  "isWhiteSpace c \<longleftrightarrow>
     c = 0x9 \<or> c = 0xA \<or> c = 0xB \<or> c = 0xC \<or> c = 0xD \<or> c = 0x20 \<or> c = 0xA0 \<or>
     c = 0x1680 \<or> (0x2000 \<le> c \<and> c \<le> 0x200A) \<or> c = 0x2028 \<or> c = 0x2029 \<or>
     c = 0x202F \<or> c = 0x205F \<or> c = 0x3000 \<or> c = 0xFEFF"

definition trim :: "jsstring \<Rightarrow> jsstring" where
  "trim s = rev (dropWhile isWhiteSpace (rev (dropWhile isWhiteSpace s)))"

section \<open>Summary extraction (src/unnamed/part_000, lines 44 to 59)\<close>

text \<open>
  The file src/unnamed/part_000 is the module that the tests import as isolated-agent: it
  holds \<open>pickSummaryFromOutput\<close>, \<open>pickSummaryFromPayloads\<close>, \<open>resolveDeliveryTarget\<close>,
  \<open>resolveCronSession\<close> and \<open>runCronIsolatedAgentTurn\<close>. Line numbers are those of that file.
\<close>

text \<open>A reply payload of the agent: \<open>{ text?, mediaUrl?, mediaUrls? }\<close>.\<close>

record Payload =
  payloadText :: "jsstring option"
  mediaUrl :: "jsstring option"
  mediaUrls :: "jsstring list option"

text \<open>
  The marker that line 48 appends to a cut text. In the source file the template literal
  ends, after \<open>${clean.slice(0, limit)}\<close>, with the bytes C3 A2 E2 82 AC C2 A6, which are the
  UTF-8 encoding of the three characters U+00E2, U+20AC and U+00A6: the marker is these three
  code units, not the one code unit U+2026 of the horizontal ellipsis.
\<close>

definition truncationMarker :: jsstring where
  "truncationMarker = [0xE2, 0x20AC, 0xA6]"

text \<open>
  \<open>pickSummaryFromOutput(text)\<close>: \<open>clean = (text ?? "").trim()\<close>; an empty \<open>clean\<close> gives
  \<open>undefined\<close>; otherwise \<open>clean\<close>, cut to \<open>limit = 2000\<close> code units with the marker appended
  when it is longer.
\<close>

definition pickSummaryFromOutput :: "jsstring option \<Rightarrow> jsstring option" where
  "pickSummaryFromOutput txt =
     (let clean = trim (case txt of None \<Rightarrow> [] | Some t \<Rightarrow> t) in
      if clean = [] then None
      else
        let limit = 2000 in
        Some (if length clean > limit then take limit clean @ truncationMarker else clean))"

text \<open>
  \<open>pickSummaryFromPayloads(payloads)\<close>: the loop \<open>for (i = payloads.length - 1; i >= 0; i--)\<close>.
  The second argument of the loop function is \<open>i + 1\<close>, so that \<open>0\<close> is the exit of the loop
  and \<open>payloads[i]\<close> is always read in range.
\<close>

fun pickSummaryLoop :: "Payload list \<Rightarrow> nat \<Rightarrow> jsstring option" where
  "pickSummaryLoop payloads 0 = None"
| "pickSummaryLoop payloads (Suc i) =
     (case pickSummaryFromOutput (payloadText (payloads ! i)) of
        Some summary \<Rightarrow> Some summary
      | None \<Rightarrow> pickSummaryLoop payloads i)"

definition pickSummaryFromPayloads :: "Payload list \<Rightarrow> jsstring option" where
  "pickSummaryFromPayloads payloads = pickSummaryLoop payloads (length payloads)"

text \<open>The trimmed text of a payload, with an absent text read as the empty string.\<close>

definition trimmedText :: "Payload \<Rightarrow> jsstring" where
  "trimmedText p = trim (case payloadText p of None \<Rightarrow> [] | Some t \<Rightarrow> t)"

text \<open>A payload that carries only a text.\<close>

definition textPayload :: "jsstring \<Rightarrow> Payload" where
  "textPayload t = \<lparr>payloadText = Some t, mediaUrl = None, mediaUrls = None\<rparr>"

section \<open>Configuration, session store and job payload\<close>

text \<open>
  The declarations of \<open>ClawdisConfig\<close>, \<open>SessionEntry\<close> and \<open>CronJob\<close> are not among the
  sources; the records below have the fields that the code of part_000 reads and writes.
  An optional field is an \<open>option\<close>.
\<close>

text \<open>
  A JavaScript number is an IEEE 754 binary64 value. The model writes a number as a rational;
  it stands for the binary64 value nearest to it, which \<open>toDouble\<close> computes, as a decimal
  literal of a configuration file is read (4.35 is read as 2448832297382707 / 2^49). An
  arithmetic operation takes the values its operands stand for and rounds its exact result
  with \<open>toDouble\<close>; comparison and \<open>Math.max\<close> are exact on those values. NaN, the infinities
  and overflow are outside the model.

  \<open>toDouble\<close> rounds to the nearest multiple of \<open>2^e\<close>, ties to the even multiple, where
  \<open>e\<close> is the exponent of the last place: 52 below the binary exponent of the number, and
  at least -1074 (the subnormal range).
\<close>

type_synonym jsnumber = rat

definition pow2 :: "int \<Rightarrow> rat" where
  "pow2 k = (if 0 \<le> k then 2 ^ nat k else 1 / 2 ^ nat (- k))"

text \<open>
  The binary exponent of a positive rational: the \<open>k\<close> with \<open>2^k \<le> x < 2^(k+1)\<close>, found from
  the bit lengths of numerator and denominator.
\<close>

definition floorLog2 :: "rat \<Rightarrow> int" where
  "floorLog2 x =
     (let k = int (floorlog 2 (nat (fst (quotient_of x)))) -
              int (floorlog 2 (nat (snd (quotient_of x))))
      in if pow2 k \<le> x then k else k - 1)"

definition roundHalfEven :: "rat \<Rightarrow> int" where
  "roundHalfEven m =
     (let f = \<lfloor>m\<rfloor>; d = m - of_int f
      in if d < 1 / 2 then f else if 1 / 2 < d then f + 1 else if even f then f else f + 1)"

definition toDouble :: "rat \<Rightarrow> rat" where
  "toDouble x =
     (if x = 0 then 0
      else
        let e = max (floorLog2 \<bar>x\<bar> - 52) (- 1074)
        in of_int (roundHalfEven (x / pow2 e)) * pow2 e)"

record SessionEntry =
  sessionId :: jsstring
  updatedAt :: jsnumber
  systemSent :: "bool option"
  thinkingLevel :: "jsstring option"
  verboseLevel :: "jsstring option"
  model :: "jsstring option"
  contextTokens :: "jsnumber option"
  lastChannel :: "jsstring option"
  lastTo :: "jsstring option"
  syncing :: "bool option"

type_synonym SessionStore = "jsstring \<rightharpoonup> SessionEntry"

record SessionConfig =
  mainKey :: "jsstring option"
  idleMinutes :: "jsnumber option"
  sendSystemOnce :: "bool option"

record ReplyConfig =
  mode :: "jsstring option"
  command :: "jsstring list option"
  session :: "SessionConfig option"

record InboundConfig =
  reply :: "ReplyConfig option"
  allowFrom :: "jsstring list option"

record ClawdisConfig =
  inbound :: "InboundConfig option"

text \<open>
  The agent-turn variant of a job payload. The source's fields \<open>channel\<close> and \<open>to\<close> are
  \<open>payloadChannel\<close> and \<open>payloadTo\<close> here, since the resolved delivery target has fields of
  the same names.
\<close>

record AgentTurn =
  message :: jsstring
  thinking :: "jsstring option"
  timeoutSeconds :: "jsnumber option"
  deliver :: "bool option"
  payloadChannel :: "jsstring option"
  payloadTo :: "jsstring option"
  bestEffortDeliver :: "bool option"

datatype CronPayload = systemEvent jsstring | agentTurn AgentTurn

record CronJob =
  jobId :: jsstring
  jobName :: "jsstring option"
  payload :: CronPayload

text \<open>\<open>cfg.inbound?.reply?.session\<close>\<close>

definition sessionCfgOf :: "ClawdisConfig \<Rightarrow> SessionConfig option" where
  "sessionCfgOf cfg = Option.bind (Option.bind (inbound cfg) reply) session"

text \<open>Truthiness of an optional string: \<open>undefined\<close> and \<open>""\<close> are falsy.\<close>

definition truthy :: "jsstring option \<Rightarrow> bool" where
  "truthy v = (case v of None \<Rightarrow> False | Some s \<Rightarrow> s \<noteq> [])"

text \<open>
  \<open>assertCommandReplyConfig\<close> (lines 29 to 42) throws unless the reply configuration is in
  command mode with a non-empty command; the thrown error is the \<open>Inl\<close> branch.
\<close>

definition assertCommandReplyConfig :: "ClawdisConfig \<Rightarrow> jsstring + ReplyConfig" where
  "assertCommandReplyConfig cfg =
     (case Option.bind (inbound cfg) reply of
        None \<Rightarrow>
          Inl (js ''Configure inbound.reply.mode=command with reply.command before using cron agent jobs.'')
      | Some r \<Rightarrow>
          if mode r \<noteq> Some (js ''command'') \<or>
             (case command r of None \<Rightarrow> True | Some c \<Rightarrow> length c = 0)
          then Inl (js ''Configure inbound.reply.mode=command with reply.command before using cron agent jobs.'')
          else Inr r)"

section \<open>Delivery target (src/unnamed/part_000, lines 61 to 120)\<close>

record DeliveryTarget =
  channel :: jsstring
  to :: "jsstring option"

text \<open>
  \<open>resolveDeliveryTarget(cfg, jobPayload)\<close> computes \<open>main\<close>, the entry of the main session
  in the store, and then three values, each by a closure that is called at once: \<open>channel\<close>,
  \<open>to\<close> and \<open>sanitizedWhatsappTo\<close>. Each is a definition here. The session store that
  \<open>loadSessionStore\<close> returns is the parameter \<open>store\<close>; \<open>jobChannel\<close> and \<open>jobTo\<close> are
  \<open>jobPayload.channel\<close> and \<open>jobPayload.to\<close>.
\<close>

text \<open>\<open>main = store[mainKey]\<close> with \<open>mainKey = (sessionCfg?.mainKey ?? "main").trim() || "main"\<close>\<close>

definition mainEntry :: "ClawdisConfig \<Rightarrow> SessionStore \<Rightarrow> SessionEntry option" where
  "mainEntry cfg store =
     (let sessionCfg = sessionCfgOf cfg;
          mainKey = (let k = trim (case Option.bind sessionCfg mainKey of
                                     None \<Rightarrow> js ''main'' | Some k \<Rightarrow> k)
                     in if k = [] then js ''main'' else k)
      in store mainKey)"

text \<open>The closure \<open>channel\<close> (lines 86 to 95) with \<open>requestedChannel\<close> and \<open>lastChannel\<close>.\<close>

definition resolvedChannel :: "ClawdisConfig \<Rightarrow> SessionStore \<Rightarrow> jsstring option \<Rightarrow> jsstring" where
  "resolvedChannel cfg store jobChannel =
     (let requestedChannel = (case jobChannel of Some c \<Rightarrow> c | None \<Rightarrow> js ''last'');
          main = mainEntry cfg store;
          lastChannel = (if truthy (Option.bind main lastChannel) \<and>
                            Option.bind main lastChannel \<noteq> Some (js ''webchat'')
                         then Option.bind main lastChannel else None)
      in if requestedChannel = js ''whatsapp'' \<or>
            requestedChannel = js ''telegram'' \<or>
            requestedChannel = js ''discord''
         then requestedChannel
         else (case lastChannel of Some c \<Rightarrow> c | None \<Rightarrow> js ''whatsapp''))"

text \<open>The closure \<open>to\<close> (lines 97 to 100) with \<open>explicitTo\<close> and \<open>lastTo\<close>.\<close>

definition candidateTo :: "ClawdisConfig \<Rightarrow> SessionStore \<Rightarrow> jsstring option \<Rightarrow> jsstring option" where
  "candidateTo cfg store jobTo =
     (let explicitTo = (case jobTo of
                          Some t \<Rightarrow> if trim t \<noteq> [] then Some (trim t) else None
                        | None \<Rightarrow> None);
          main = mainEntry cfg store;
          lastTo = (case Option.bind main lastTo of Some t \<Rightarrow> trim t | None \<Rightarrow> [])
      in if truthy explicitTo then explicitTo
         else if lastTo \<noteq> [] then Some lastTo else None)"

text \<open>\<open>cfg.inbound?.allowFrom ?? []\<close>\<close>

definition rawAllow :: "ClawdisConfig \<Rightarrow> jsstring list" where
  "rawAllow cfg = (case Option.bind (inbound cfg) allowFrom of None \<Rightarrow> [] | Some a \<Rightarrow> a)"

text \<open>
  \<open>rawAllow.map((val) => normalizeE164(val)).filter((val) => val.length > 1)\<close>.
  \<open>normalizeE164\<close> (utils.js) is not among the sources and is a parameter.
\<close>

definition normalizedAllow :: "(jsstring \<Rightarrow> jsstring) \<Rightarrow> ClawdisConfig \<Rightarrow> jsstring list" where
  "normalizedAllow normalizeE164 cfg =
     filter (\<lambda>val. length val > 1) (map normalizeE164 (rawAllow cfg))"

text \<open>
  The closure \<open>sanitizedWhatsappTo\<close> (lines 102 to 114); \<open>resolved\<close> and \<open>candidate\<close> are the
  \<open>channel\<close> and \<open>to\<close> it reads.
\<close>

definition sanitizedWhatsappTo ::
  "(jsstring \<Rightarrow> jsstring) \<Rightarrow> ClawdisConfig \<Rightarrow> jsstring \<Rightarrow> jsstring option \<Rightarrow> jsstring option" where
  "sanitizedWhatsappTo normalizeE164 cfg resolved candidate =
     (if resolved \<noteq> js ''whatsapp'' then candidate
      else if js ''*'' \<in> set (rawAllow cfg) then candidate
      else
        let allowFrom = normalizedAllow normalizeE164 cfg in
        case allowFrom of
          [] \<Rightarrow> candidate
        | first # _ \<Rightarrow>
            if \<not> truthy candidate then Some first
            else
              let normalized = normalizeE164 (case candidate of None \<Rightarrow> [] | Some t \<Rightarrow> t) in
              if normalized \<in> set allowFrom then Some normalized else Some first)"

definition resolveDeliveryTarget ::
  "(jsstring \<Rightarrow> jsstring) \<Rightarrow> ClawdisConfig \<Rightarrow> SessionStore \<Rightarrow>
   jsstring option \<Rightarrow> jsstring option \<Rightarrow> DeliveryTarget" where
  "resolveDeliveryTarget normalizeE164 cfg store jobChannel jobTo =
     (let resolved = resolvedChannel cfg store jobChannel;
          candidate = candidateTo cfg store jobTo
      in \<lparr>channel = resolved,
          to = (if resolved = js ''whatsapp''
                then sanitizedWhatsappTo normalizeE164 cfg resolved candidate
                else candidate)\<rparr>)"

text \<open>
  The precedence as the specification words it. The recipient: an explicit \<open>to\<close> that is
  non-empty after trimming, else the last-route \<open>to\<close> of the session, absent if empty; both
  are taken trimmed. The channel: the requested one if it is a known surface, else the
  last-route channel of the session unless it is missing or the web surface, else the
  primary surface.
\<close>

definition precedenceTo :: "jsstring option \<Rightarrow> jsstring option \<Rightarrow> jsstring option" where
  "precedenceTo explicit lastRouteTo =
     (case explicit of
        Some t \<Rightarrow>
          if trim t \<noteq> [] then Some (trim t)
          else (case lastRouteTo of
                  Some l \<Rightarrow> if trim l = [] then None else Some (trim l)
                | None \<Rightarrow> None)
      | None \<Rightarrow>
          (case lastRouteTo of
             Some l \<Rightarrow> if trim l = [] then None else Some (trim l)
           | None \<Rightarrow> None))"

definition precedenceChannel :: "jsstring option \<Rightarrow> jsstring option \<Rightarrow> jsstring" where
  "precedenceChannel requested lastRouteChannel =
     (if requested = Some (js ''whatsapp'') then js ''whatsapp''
      else if requested = Some (js ''telegram'') then js ''telegram''
      else if requested = Some (js ''discord'') then js ''discord''
      else (case lastRouteChannel of
              None \<Rightarrow> js ''whatsapp''
            | Some c \<Rightarrow> if c = [] \<or> c = js ''webchat'' then js ''whatsapp'' else c))"

section \<open>Cron session (src/unnamed/part_000, lines 122 to 152)\<close>

text \<open>
  The value that \<open>resolveCronSession\<close> returns, without \<open>storePath\<close>. Its fields \<open>store\<close> and
  \<open>systemSent\<close> are \<open>sessionStore\<close> and \<open>systemWasSent\<close> here.
\<close>

record CronSession =
  sessionStore :: SessionStore
  sessionEntry :: SessionEntry
  systemWasSent :: bool
  isNewSession :: bool

text \<open>
  \<open>resolveCronSession({cfg, sessionKey, nowMs})\<close>. The constant \<open>DEFAULT_IDLE_MINUTES\<close>
  (sessions.js) is not among the sources and is the parameter \<open>defaultIdleMinutes\<close>; the
  value that \<open>crypto.randomUUID()\<close> would return is the parameter \<open>randomUUID\<close>, and the
  session store that \<open>loadSessionStore\<close> returns is \<open>store\<close>.
\<close>

definition resolveCronSession ::
  "jsnumber \<Rightarrow> jsstring \<Rightarrow> ClawdisConfig \<Rightarrow> SessionStore \<Rightarrow> jsstring \<Rightarrow> jsnumber \<Rightarrow>
   CronSession" where
  "resolveCronSession defaultIdleMinutes randomUUID cfg store sessionKey nowMs =
     (let sessionCfg = sessionCfgOf cfg;
          idleMinutes = max (toDouble (case Option.bind sessionCfg idleMinutes of
                                         None \<Rightarrow> defaultIdleMinutes | Some m \<Rightarrow> m)) 1;
          idleMs = toDouble (idleMinutes * 60000);
          entry = store sessionKey;
          fresh = (case entry of
                     None \<Rightarrow> False
                   | Some e \<Rightarrow> toDouble (toDouble nowMs - toDouble (updatedAt e)) \<le> idleMs);
          sessionId = (case entry of
                         None \<Rightarrow> randomUUID
                       | Some e \<Rightarrow> if fresh then sessionId e else randomUUID);
          systemSent = (case entry of
                          None \<Rightarrow> False
                        | Some e \<Rightarrow> if fresh then systemSent e = Some True else False);
          sessionEntry = \<lparr>sessionId = sessionId,
                          updatedAt = nowMs,
                          systemSent = Some systemSent,
                          thinkingLevel = Option.bind entry thinkingLevel,
                          verboseLevel = Option.bind entry verboseLevel,
                          model = Option.bind entry model,
                          contextTokens = Option.bind entry contextTokens,
                          lastChannel = Option.bind entry lastChannel,
                          lastTo = Option.bind entry lastTo,
                          syncing = Option.bind entry syncing\<rparr>
      in \<lparr>sessionStore = store, sessionEntry = sessionEntry,
          systemWasSent = systemSent, isNewSession = \<not> fresh\<rparr>)"



section \<open>The isolated agent turn (src/unnamed/part_000, lines 154 to 398)\<close>

text \<open>
  The collaborators of the run are outside the sources and are given to the model as values:
  \<^item> \<open>normalizeE164\<close> (utils.js) and \<open>chunkText\<close> (chunk.js) are functions;
  \<^item> \<open>defaultIdleMinutes\<close> is the constant \<open>DEFAULT_IDLE_MINUTES\<close>, \<open>randomUUID\<close> the value that
    \<open>crypto.randomUUID()\<close> returns, \<open>dateNow\<close> the value of \<open>Date.now()\<close>, \<open>discordToken\<close> the
    value of \<open>process.env.DISCORD_BOT_TOKEN\<close>;
  \<^item> \<open>loadedStore\<close> is the session store that \<open>loadSessionStore\<close> returns (both loads of a
    run happen before its only save); \<open>saveSessionStore\<close> replaces the persisted store;
  \<^item> \<open>commandReply\<close> is the outcome of the agent command \<open>runCommandReply\<close>: \<open>Inl\<close> of
    \<open>String(err)\<close> when it rejects, \<open>Inr\<close> of the \<open>payloads\<close> field of its result otherwise.
    The arguments built for the command (the templated body, think level, timeout, lane)
    reach only the command and are not modelled: every statement below holds for any outcome;
  \<^item> \<open>sendOutcome\<close> tells, from the send calls made so far in the run and the call being made,
    whether that call rejects (\<open>Some\<close> of \<open>String(err)\<close>) or resolves (\<open>None\<close>).
\<close>

datatype SendCall =
    sendMessageWhatsApp jsstring jsstring "jsstring option"
  | sendMessageTelegram jsstring jsstring "jsstring option"
  | sendMessageDiscord jsstring jsstring "jsstring option" "jsstring option"

record Collaborators =
  normalizeE164 :: "jsstring \<Rightarrow> jsstring"
  chunkText :: "jsstring \<Rightarrow> nat \<Rightarrow> jsstring list"
  defaultIdleMinutes :: jsnumber
  randomUUID :: jsstring
  dateNow :: jsnumber
  discordToken :: "jsstring option"
  loadedStore :: SessionStore
  commandReply :: "jsstring + Payload list option"
  sendOutcome :: "SendCall list \<Rightarrow> SendCall \<Rightarrow> jsstring option"

text \<open>
  What a run does to the outside, in order: a save of the session store, the invocation of the
  agent command, and each send call with its outcome.
\<close>

datatype Event =
    saveSessionStore SessionStore
  | runCommandReply
  | sendCall SendCall "jsstring option"

datatype Status = statusOk | statusError | statusSkipped

record RunCronAgentTurnResult =
  status :: Status
  summary :: "jsstring option"
  error :: "jsstring option"

text \<open>
  A run: the value the promise resolves to (\<open>Inr\<close>), or the error it rejects with (\<open>Inl\<close>), and
  the events in the order they happened.
\<close>

record Run =
  result :: "jsstring + RunCronAgentTurnResult"
  events :: "Event list"

text \<open>The local constants \<open>delivery\<close> and \<open>bestEffortDeliver\<close> (lines 198 to 203) of a job.\<close>

definition jobDelivery :: "CronJob \<Rightarrow> bool" where
  "jobDelivery job = (case payload job of agentTurn a \<Rightarrow> deliver a = Some True | systemEvent _ \<Rightarrow> False)"

definition jobBestEffort :: "CronJob \<Rightarrow> bool" where
  "jobBestEffort job =
     (case payload job of agentTurn a \<Rightarrow> bestEffortDeliver a = Some True | systemEvent _ \<Rightarrow> False)"

text \<open>
  The local constant \<open>resolvedDelivery\<close>: the call
  \<open>resolveDeliveryTarget(params.cfg, {channel: ..., to: ...})\<close> of lines 205 to 214.
\<close>

definition jobResolvedDelivery :: "Collaborators \<Rightarrow> ClawdisConfig \<Rightarrow> CronJob \<Rightarrow> DeliveryTarget" where
  "jobResolvedDelivery w cfg job =
     resolveDeliveryTarget (normalizeE164 w) cfg (loadedStore w)
       (case payload job of agentTurn a \<Rightarrow> payloadChannel a | systemEvent _ \<Rightarrow> Some (js ''last''))
       (case payload job of agentTurn a \<Rightarrow> payloadTo a | systemEvent _ \<Rightarrow> None)"

text \<open>\<open>payload.text ?? ""\<close>\<close>

definition textOrEmpty :: "Payload \<Rightarrow> jsstring" where
  "textOrEmpty p = (case payloadText p of None \<Rightarrow> [] | Some t \<Rightarrow> t)"

text \<open>\<open>payload.mediaUrls ?? (payload.mediaUrl ? [payload.mediaUrl] : [])\<close>\<close>

definition mediaList :: "Payload \<Rightarrow> jsstring list" where
  "mediaList p =
     (case mediaUrls p of
        Some urls \<Rightarrow> urls
      | None \<Rightarrow> if truthy (mediaUrl p) then [case mediaUrl p of None \<Rightarrow> [] | Some u \<Rightarrow> u] else [])"

text \<open>
  The send calls that the body of each \<open>for (const payload of payloads)\<close> loop makes for one
  payload, in order: WhatsApp (lines 290 to 302), Telegram (lines 325 to 343), Discord
  (lines 367 to 387).
\<close>

definition whatsappCalls :: "jsstring \<Rightarrow> Payload \<Rightarrow> SendCall list" where
  "whatsappCalls recipient p =
     (let primaryMedia = (case mediaList p of [] \<Rightarrow> None | url # _ \<Rightarrow> Some url) in
      sendMessageWhatsApp recipient (textOrEmpty p) primaryMedia #
      map (\<lambda>extra. sendMessageWhatsApp recipient [] (Some extra)) (drop 1 (mediaList p)))"

definition telegramCalls :: "(jsstring \<Rightarrow> nat \<Rightarrow> jsstring list) \<Rightarrow> jsstring \<Rightarrow> Payload \<Rightarrow> SendCall list" where
  "telegramCalls chunker chatId p =
     (case mediaList p of
        [] \<Rightarrow> map (\<lambda>chunk. sendMessageTelegram chatId chunk None) (chunker (textOrEmpty p) 4000)
      | url # extras \<Rightarrow>
          sendMessageTelegram chatId (textOrEmpty p) (Some url) #
          map (\<lambda>url. sendMessageTelegram chatId [] (Some url)) extras)"

definition discordCalls :: "jsstring option \<Rightarrow> jsstring \<Rightarrow> Payload \<Rightarrow> SendCall list" where
  "discordCalls token discordTarget p =
     (case mediaList p of
        [] \<Rightarrow> [sendMessageDiscord discordTarget (textOrEmpty p) token None]
      | url # extras \<Rightarrow>
          sendMessageDiscord discordTarget (textOrEmpty p) token (Some url) #
          map (\<lambda>url. sendMessageDiscord discordTarget [] token (Some url)) extras)"

text \<open>
  The awaited calls of a \<open>try\<close> block, one after the other: the first call that rejects ends
  the block with its error (the \<open>catch\<close>); \<open>made\<close> are the calls made before.
\<close>

fun performSends ::
  "(SendCall list \<Rightarrow> SendCall \<Rightarrow> jsstring option) \<Rightarrow> SendCall list \<Rightarrow> SendCall list \<Rightarrow>
   jsstring option \<times> Event list" where
  "performSends outcome made [] = (None, [])"
| "performSends outcome made (c # calls) =
     (case outcome made c of
        Some err \<Rightarrow> (Some err, [sendCall c (Some err)])
      | None \<Rightarrow>
          (case performSends outcome (made @ [c]) calls of
             (failure, evs) \<Rightarrow> (failure, sendCall c None # evs)))"

text \<open>
  What follows a \<open>try\<close> block of sends (lines 304 to 308, and the final \<open>return\<close> of
  line 397 when nothing was thrown).
\<close>

definition afterSends ::
  "bool \<Rightarrow> jsstring option \<Rightarrow> jsstring option \<times> Event list \<Rightarrow> RunCronAgentTurnResult \<times> Event list" where
  "afterSends bestEffortFlag extracted sent =
     (case sent of
        (Some err, evs) \<Rightarrow>
          (if \<not> bestEffortFlag
           then \<lparr>status = statusError, summary = extracted, error = Some err\<rparr>
           else \<lparr>status = statusOk, summary = extracted, error = None\<rparr>, evs)
      | (None, evs) \<Rightarrow> (\<lparr>status = statusOk, summary = extracted, error = None\<rparr>, evs))"

text \<open>
  The delivery block (lines 273 to 397), given the flags \<open>delivery\<close> and
  \<open>bestEffortDeliver\<close>, the resolved target \<open>resolvedDelivery\<close>, the payloads of the agent
  and the extracted \<open>summary\<close>.
\<close>

definition deliverResult ::
  "Collaborators \<Rightarrow> bool \<Rightarrow> bool \<Rightarrow> DeliveryTarget \<Rightarrow> Payload list \<Rightarrow> jsstring option \<Rightarrow>
   RunCronAgentTurnResult \<times> Event list" where
  "deliverResult w deliveryFlag bestEffortFlag target payloads extracted =
     (if deliveryFlag then
        if channel target = js ''whatsapp'' then
          if \<not> truthy (to target) then
            if \<not> bestEffortFlag
            then (\<lparr>status = statusError, summary = extracted,
                   error = Some (js ''Cron delivery to WhatsApp requires a recipient.'')\<rparr>, [])
            else (\<lparr>status = statusSkipped,
                   summary = Some (js ''Delivery skipped (no WhatsApp recipient).''),
                   error = None\<rparr>, [])
          else
            let recipient = normalizeE164 w (case to target of None \<Rightarrow> [] | Some t \<Rightarrow> t) in
            afterSends bestEffortFlag extracted
              (performSends (sendOutcome w) [] (concat (map (whatsappCalls recipient) payloads)))
        else if channel target = js ''telegram'' then
          if \<not> truthy (to target) then
            if \<not> bestEffortFlag
            then (\<lparr>status = statusError, summary = extracted,
                   error = Some (js ''Cron delivery to Telegram requires a chatId.'')\<rparr>, [])
            else (\<lparr>status = statusSkipped,
                   summary = Some (js ''Delivery skipped (no Telegram chatId).''),
                   error = None\<rparr>, [])
          else
            let chatId = (case to target of None \<Rightarrow> [] | Some t \<Rightarrow> t) in
            afterSends bestEffortFlag extracted
              (performSends (sendOutcome w) []
                 (concat (map (telegramCalls (chunkText w) chatId) payloads)))
        else if channel target = js ''discord'' then
          if \<not> truthy (to target) then
            if \<not> bestEffortFlag
            then (\<lparr>status = statusError, summary = extracted,
                   error = Some (js ''Cron delivery to Discord requires --channel discord and --to <channelId|user:ID>'')\<rparr>, [])
            else (\<lparr>status = statusSkipped,
                   summary = Some (js ''Delivery skipped (no Discord destination).''),
                   error = None\<rparr>, [])
          else
            let discordTarget = (case to target of None \<Rightarrow> [] | Some t \<Rightarrow> t) in
            afterSends bestEffortFlag extracted
              (performSends (sendOutcome w) []
                 (concat (map (discordCalls (discordToken w) discordTarget) payloads)))
        else (\<lparr>status = statusOk, summary = extracted, error = None\<rparr>, [])
      else (\<lparr>status = statusOk, summary = extracted, error = None\<rparr>, []))"

text \<open>
  The summary of lines 268 to 271:
  \<open>pickSummaryFromPayloads(payloads) ?? pickSummaryFromOutput(payloads[0]?.text ?? "")\<close>.
\<close>

definition extractSummary :: "Payload list \<Rightarrow> jsstring option" where
  "extractSummary payloads =
     (let firstText = (case payloads of [] \<Rightarrow> [] | p # _ \<Rightarrow> textOrEmpty p) in
      case pickSummaryFromPayloads payloads of
        Some s \<Rightarrow> Some s
      | None \<Rightarrow> pickSummaryFromOutput (Some firstText))"

text \<open>
  \<open>runCronIsolatedAgentTurn({cfg, deps, job, message, sessionKey, lane})\<close>. Both branches of
  lines 238 to 245 store the session entry under \<open>sessionKey\<close> and save the store; the first
  one sets \<open>systemSent = true\<close> in the entry before.
\<close>

definition runCronIsolatedAgentTurn ::
  "Collaborators \<Rightarrow> ClawdisConfig \<Rightarrow> CronJob \<Rightarrow> jsstring \<Rightarrow> Run" where
  "runCronIsolatedAgentTurn w cfg job sessionKey =
     (case assertCommandReplyConfig cfg of
        Inl err \<Rightarrow> \<lparr>result = Inl err, events = []\<rparr>
      | Inr replyCfg \<Rightarrow>
         (let now = dateNow w;
              cronSession = resolveCronSession (defaultIdleMinutes w) (randomUUID w) cfg
                              (loadedStore w) sessionKey now;
              sendSystemOnce = (Option.bind (session replyCfg) sendSystemOnce = Some True);
              isFirstTurnInSession = (isNewSession cronSession \<or> \<not> systemWasSent cronSession);
              entry = (if sendSystemOnce \<and> isFirstTurnInSession
                       then (sessionEntry cronSession)\<lparr>systemSent := Some True\<rparr>
                       else sessionEntry cronSession);
              store = sessionStore cronSession;
              saved = store(sessionKey \<mapsto> entry)
          in (case commandReply w of
                Inl err \<Rightarrow>
                  \<lparr>result = Inr \<lparr>status = statusError, summary = None, error = Some err\<rparr>,
                   events = [saveSessionStore saved, runCommandReply]\<rparr>
              | Inr runResultPayloads \<Rightarrow>
                 (let payloads = (case runResultPayloads of None \<Rightarrow> [] | Some ps \<Rightarrow> ps);
                      summary = extractSummary payloads
                  in (case deliverResult w (jobDelivery job) (jobBestEffort job)
                             (jobResolvedDelivery w cfg job) payloads summary of
                        (res, sends) \<Rightarrow>
                          \<lparr>result = Inr res,
                           events = [saveSessionStore saved, runCommandReply] @ sends\<rparr>)))))"

text \<open>The session store on disk after a run: the store of the last save, if any.\<close>

definition persistedStore :: "SessionStore \<Rightarrow> Event list \<Rightarrow> SessionStore" where
  "persistedStore initial evs =
     foldl (\<lambda>st ev. case ev of saveSessionStore st' \<Rightarrow> st' | _ \<Rightarrow> st) initial evs"

text \<open>An event that is a send call.\<close>

definition isSend :: "Event \<Rightarrow> bool" where
  "isSend ev = (case ev of sendCall _ _ \<Rightarrow> True | _ \<Rightarrow> False)"

text \<open>
  The fixed texts of the delivery block, by channel: the summary of a skipped delivery and
  the error of a delivery that has no recipient.
\<close>

definition skipNotice :: "jsstring \<Rightarrow> jsstring" where
  "skipNotice ch =
     (if ch = js ''whatsapp'' then js ''Delivery skipped (no WhatsApp recipient).''
      else if ch = js ''telegram'' then js ''Delivery skipped (no Telegram chatId).''
      else js ''Delivery skipped (no Discord destination).'')"

definition recipientRequired :: "jsstring \<Rightarrow> jsstring" where
  "recipientRequired ch =
     (if ch = js ''whatsapp'' then js ''Cron delivery to WhatsApp requires a recipient.''
      else if ch = js ''telegram'' then js ''Cron delivery to Telegram requires a chatId.''
      else js ''Cron delivery to Discord requires --channel discord and --to <channelId|user:ID>'')"

section \<open>The cron job editor (CronSettings.swift, lines 873 to 989)\<close>

text \<open>
  The state of \<open>CronJobEditor\<close> that \<open>buildPayload\<close> reads. A field \<open>edX\<close> is the source's
  \<open>self.x\<close>; \<open>edAtMs\<close> is \<open>Int(self.atDate.timeIntervalSince1970 * 1000)\<close>. Text is a list of
  UTF-16 code units, as above.
\<close>

datatype CronSessionTarget = targetMain | targetIsolated

datatype CronWakeMode = wakeNextHeartbeat | wakeNow

datatype ScheduleKind = kindAt | kindEvery | kindCron

datatype PayloadKind = kindSystemEvent | kindAgentTurn

record CronJobEditor =
  edName :: jsstring
  edEnabled :: bool
  edSessionTarget :: CronSessionTarget
  edWakeMode :: CronWakeMode
  edScheduleKind :: ScheduleKind
  edAtMs :: int
  edEveryText :: jsstring
  edCronExpr :: jsstring
  edCronTz :: jsstring
  edPayloadKind :: PayloadKind
  edSystemEventText :: jsstring
  edAgentMessage :: jsstring
  edDeliver :: bool
  edChannel :: jsstring
  edTo :: jsstring
  edThinking :: jsstring
  edTimeoutSeconds :: jsstring
  edBestEffortDeliver :: bool
  edPostPrefix :: jsstring

text \<open>
  The dictionaries that \<open>buildPayload\<close> builds. A schedule is \<open>["kind": "at", "atMs": _]\<close>,
  \<open>["kind": "every", "everyMs": _]\<close> or \<open>["kind": "cron", "expr": _, "tz": _]\<close>; a payload is
  \<open>["kind": "systemEvent", "text": _]\<close> or the agent-turn dictionary, whose optional keys are
  options.
\<close>

datatype ScheduleDict =
    scheduleAt int
  | scheduleEvery int
  | scheduleCron jsstring "jsstring option"

record AgentTurnDict =
  dictMessage :: jsstring
  dictThinking :: "jsstring option"
  dictTimeoutSeconds :: "int option"
  dictDeliver :: bool
  dictChannel :: "jsstring option"
  dictTo :: "jsstring option"
  dictBestEffortDeliver :: "bool option"

datatype PayloadDict = systemEventDict jsstring | agentTurnDict AgentTurnDict

record JobDict =
  rootEnabled :: bool
  rootSchedule :: ScheduleDict
  rootSessionTarget :: CronSessionTarget
  rootWakeMode :: CronWakeMode
  rootPayload :: PayloadDict
  rootName :: "jsstring option"
  rootIsolation :: "jsstring option"

text \<open>
  \<open>trimmingCharacters(in: .whitespacesAndNewlines)\<close>: the set is the Unicode category Z
  with U+0009 to U+000D and U+0085.
\<close>

definition isWhitespaceOrNewline :: "16 word \<Rightarrow> bool" where
  "isWhitespaceOrNewline c \<longleftrightarrow>
     (0x9 \<le> c \<and> c \<le> 0xD) \<or> c = 0x20 \<or> c = 0x85 \<or> c = 0xA0 \<or> c = 0x1680 \<or>
     (0x2000 \<le> c \<and> c \<le> 0x200A) \<or> c = 0x2028 \<or> c = 0x2029 \<or> c = 0x202F \<or>
     c = 0x205F \<or> c = 0x3000"

definition trimmingWhitespace :: "jsstring \<Rightarrow> jsstring" where
  "trimmingWhitespace s =
     rev (dropWhile isWhitespaceOrNewline (rev (dropWhile isWhitespaceOrNewline s)))"

text \<open>
  \<open>buildAgentTurnPayload\<close> (lines 976 to 989). \<open>parseInt\<close> stands for Swift's \<open>Int(_: String)\<close>.
\<close>

definition buildAgentTurnPayload :: "(jsstring \<Rightarrow> int option) \<Rightarrow> CronJobEditor \<Rightarrow> AgentTurnDict" where
  "buildAgentTurnPayload parseInt ed =
     (let msg = trimmingWhitespace (edAgentMessage ed);
          thinking = trimmingWhitespace (edThinking ed);
          recipient = trimmingWhitespace (edTo ed)
      in \<lparr>dictMessage = msg,
          dictThinking = (if thinking \<noteq> [] then Some thinking else None),
          dictTimeoutSeconds =
            (case parseInt (edTimeoutSeconds ed) of
               Some n \<Rightarrow> if n > 0 then Some n else None
             | None \<Rightarrow> None),
          dictDeliver = edDeliver ed,
          dictChannel = (if edDeliver ed then Some (edChannel ed) else None),
          dictTo = (if edDeliver ed \<and> recipient \<noteq> [] then Some recipient else None),
          dictBestEffortDeliver = (if edDeliver ed then Some (edBestEffortDeliver ed) else None)\<rparr>)"

text \<open>
  The schedule of lines 885 to 910. \<open>parseDurationMs\<close> (lines 991 to 1016) matches a regular
  expression and computes in \<open>Double\<close>; what it returns for a text is the parameter
  \<open>parseDurationMs\<close>.
\<close>

definition buildSchedule :: "(jsstring \<Rightarrow> int option) \<Rightarrow> CronJobEditor \<Rightarrow> string + ScheduleDict" where
  "buildSchedule parseDurationMs ed =
     (case edScheduleKind ed of
        kindAt \<Rightarrow> Inr (scheduleAt (edAtMs ed))
      | kindEvery \<Rightarrow>
          (case parseDurationMs (edEveryText ed) of
             None \<Rightarrow> Inl ''Invalid every duration (use 10m, 1h, 1d).''
           | Some ms \<Rightarrow> Inr (scheduleEvery ms))
      | kindCron \<Rightarrow>
          (let expr = trimmingWhitespace (edCronExpr ed) in
           if expr = [] then Inl ''Cron expression is required.''
           else
             let tz = trimmingWhitespace (edCronTz ed) in
             if tz = [] then Inr (scheduleCron expr None) else Inr (scheduleCron expr (Some tz))))"

text \<open>The closure that builds \<open>payload\<close> (lines 913 to 922).\<close>

definition buildPayloadDict :: "(jsstring \<Rightarrow> int option) \<Rightarrow> CronJobEditor \<Rightarrow> PayloadDict" where
  "buildPayloadDict parseInt ed =
     (if edSessionTarget ed = targetIsolated then agentTurnDict (buildAgentTurnPayload parseInt ed)
      else
        case edPayloadKind ed of
          kindSystemEvent \<Rightarrow> systemEventDict (trimmingWhitespace (edSystemEventText ed))
        | kindAgentTurn \<Rightarrow> agentTurnDict (buildAgentTurnPayload parseInt ed))"

text \<open>\<open>payload["kind"] as? String == "agentTurn"\<close> and \<open>== "systemEvent"\<close>\<close>

definition isAgentTurn :: "PayloadDict \<Rightarrow> bool" where
  "isAgentTurn p = (case p of agentTurnDict _ \<Rightarrow> True | systemEventDict _ \<Rightarrow> False)"

definition isSystemEvent :: "PayloadDict \<Rightarrow> bool" where
  "isSystemEvent p = (case p of systemEventDict _ \<Rightarrow> True | agentTurnDict _ \<Rightarrow> False)"

text \<open>
  The two checks of the pairing (lines 924 to 939), on the session target and the payload
  that was built: the description of the error thrown, if any.
\<close>

definition checkPairing :: "CronSessionTarget \<Rightarrow> PayloadDict \<Rightarrow> string option" where
  "checkPairing sessionTarget built =
     (if sessionTarget = targetMain \<and> isAgentTurn built then
        Some ''Main session jobs require systemEvent payloads (switch Session target to isolated).''
      else if sessionTarget = targetIsolated \<and> isSystemEvent built then
        Some ''Isolated jobs require agentTurn payloads.''
      else None)"

text \<open>\<open>buildPayload\<close> (lines 883 to 974): a thrown \<open>NSError\<close> is \<open>Inl\<close> of its description.\<close>

definition buildPayload ::
  "(jsstring \<Rightarrow> int option) \<Rightarrow> (jsstring \<Rightarrow> int option) \<Rightarrow> CronJobEditor \<Rightarrow> string + JobDict" where
  "buildPayload parseDurationMs parseInt ed =
     (let name = trimmingWhitespace (edName ed) in
      case buildSchedule parseDurationMs ed of
        Inl err \<Rightarrow> Inl err
      | Inr schedule \<Rightarrow>
          let built = buildPayloadDict parseInt ed in
          case checkPairing (edSessionTarget ed) built of
            Some err \<Rightarrow> Inl err
          | None \<Rightarrow>
              if (case built of systemEventDict t \<Rightarrow> t = [] | agentTurnDict _ \<Rightarrow> False) then
                Inl ''System event text is required.''
              else if (case built of agentTurnDict a \<Rightarrow> dictMessage a = []
                       | systemEventDict _ \<Rightarrow> False) then
                Inl ''Agent message is required.''
              else
                Inr \<lparr>rootEnabled = edEnabled ed,
                     rootSchedule = schedule,
                     rootSessionTarget = edSessionTarget ed,
                     rootWakeMode = edWakeMode ed,
                     rootPayload = built,
                     rootName = (if name \<noteq> [] then Some name else None),
                     rootIsolation =
                       (if edSessionTarget ed = targetIsolated
                        then (let trimmed = trimmingWhitespace (edPostPrefix ed) in
                              Some (if trimmed = [] then js ''Cron'' else trimmed))
                        else None)\<rparr>)"

text \<open>
  \<open>save\<close> (lines 873 to 881): \<open>onSave\<close> is called with the dictionary only when \<open>buildPayload\<close>
  returned; otherwise the error is shown. The pair is the error shown and the dictionary passed
  to \<open>onSave\<close>.
\<close>

definition save ::
  "(jsstring \<Rightarrow> int option) \<Rightarrow> (jsstring \<Rightarrow> int option) \<Rightarrow> CronJobEditor \<Rightarrow>
   string option \<times> JobDict option" where
  "save parseDurationMs parseInt ed =
     (case buildPayload parseDurationMs parseInt ed of
        Inl err \<Rightarrow> (Some err, None)
      | Inr dict \<Rightarrow> (None, Some dict))"

text \<open>The invariant of a job: a main job carries a system event, an isolated job an agent turn.\<close>

definition pairingOk :: "JobDict \<Rightarrow> bool" where
  "pairingOk dict =
     (case rootSessionTarget dict of
        targetMain \<Rightarrow> isSystemEvent (rootPayload dict)
      | targetIsolated \<Rightarrow> isAgentTurn (rootPayload dict))"

section \<open>Inputs of the test suite\<close>

text \<open>
  The configuration, session store and job that the tests of \<open>runCronIsolatedAgentTurn\<close>
  build (\<open>makeCfg\<close>, \<open>makeSessionStorePath\<close>, \<open>makeJob\<close>), and variants of them.
\<close>

definition makeCfg :: ClawdisConfig where
  "makeCfg =
     \<lparr>inbound = Some
        \<lparr>reply = Some \<lparr>mode = Some (js ''command''),
                        command = Some [js ''echo'', js ''ok''],
                        session = Some \<lparr>mainKey = Some (js ''main''),
                                        idleMinutes = None,
                                        sendSystemOnce = None\<rparr>\<rparr>,
         allowFrom = None\<rparr>\<rparr>"

text \<open>\<open>makeCfg\<close> with an allowlist of one number.\<close>

definition allowCfg :: ClawdisConfig where
  "allowCfg =
     \<lparr>inbound = Some
        \<lparr>reply = Some \<lparr>mode = Some (js ''command''),
                        command = Some [js ''echo'', js ''ok''],
                        session = Some \<lparr>mainKey = Some (js ''main''),
                                        idleMinutes = None,
                                        sendSystemOnce = None\<rparr>\<rparr>,
         allowFrom = Some [js ''+15550001111'']\<rparr>\<rparr>"

text \<open>\<open>makeCfg\<close> with the send-system-once policy and an idle window of ten minutes.\<close>

definition onceCfg :: ClawdisConfig where
  "onceCfg =
     \<lparr>inbound = Some
        \<lparr>reply = Some \<lparr>mode = Some (js ''command''),
                        command = Some [js ''echo'', js ''ok''],
                        session = Some \<lparr>mainKey = Some (js ''main''),
                                        idleMinutes = Some 10,
                                        sendSystemOnce = Some True\<rparr>\<rparr>,
         allowFrom = None\<rparr>\<rparr>"


text \<open>
  A normalizer for examples: it keeps the decimal digits of its argument and puts a plus sign
  in front. It stands in for \<open>normalizeE164\<close>, which is not among the sources.
\<close>

definition digitsE164 :: "jsstring \<Rightarrow> jsstring" where
  "digitsE164 s = 0x2B # filter (\<lambda>c. 0x30 \<le> c \<and> c \<le> 0x39) s"

text \<open>\<open>makeCfg\<close> with an allowlist of three entries, the first of which has no digits.\<close>

definition listCfg :: ClawdisConfig where
  "listCfg =
     \<lparr>inbound = Some
        \<lparr>reply = Some \<lparr>mode = Some (js ''command''),
                        command = Some [js ''echo'', js ''ok''],
                        session = Some \<lparr>mainKey = Some (js ''main''),
                                        idleMinutes = None,
                                        sendSystemOnce = None\<rparr>\<rparr>,
         allowFrom = Some [js ''n/a'', js ''+1 (555) 000-1111'', js ''15550002222'']\<rparr>\<rparr>"

definition mainSession :: SessionEntry where
  "mainSession =
     \<lparr>sessionId = js ''main-session'', updatedAt = 1000, systemSent = None,
      thinkingLevel = None, verboseLevel = None, model = None, contextTokens = None,
      lastChannel = Some (js ''webchat''), lastTo = Some [], syncing = None\<rparr>"

definition makeSessionStore :: SessionStore where
  "makeSessionStore = [js ''main'' \<mapsto> mainSession]"

definition makeJob :: "AgentTurn \<Rightarrow> CronJob" where
  "makeJob p = \<lparr>jobId = js ''job-1'', jobName = None, payload = agentTurn p\<rparr>"

text \<open>The agent-turn payload that asks for delivery on a channel.\<close>

definition deliverOn :: "jsstring \<Rightarrow> jsstring option \<Rightarrow> bool \<Rightarrow> AgentTurn" where
  "deliverOn ch recipient bestEffortFlag =
     \<lparr>message = js ''do it'', thinking = None, timeoutSeconds = None, deliver = Some True,
      payloadChannel = Some ch, payloadTo = recipient, bestEffortDeliver = Some bestEffortFlag\<rparr>"

text \<open>
  Collaborators for a test: the agent command has the given outcome and every send call the
  given one.
\<close>

definition everySend :: "jsstring option \<Rightarrow> SendCall list \<Rightarrow> SendCall \<Rightarrow> jsstring option" where
  "everySend out made c = out"

definition oneChunk :: "jsstring \<Rightarrow> nat \<Rightarrow> jsstring list" where
  "oneChunk t limit = [t]"

definition testWorld :: "jsstring + Payload list option \<Rightarrow> jsstring option \<Rightarrow> Collaborators" where
  "testWorld agentOutcome sendResult =
     \<lparr>normalizeE164 = id, chunkText = oneChunk, defaultIdleMinutes = 60,
      randomUUID = js ''minted'', dateNow = 2000, discordToken = None,
      loadedStore = makeSessionStore, commandReply = agentOutcome,
      sendOutcome = everySend sendResult\<rparr>"

text \<open>
  Two states of the editor: an isolated job (the payload kind, which the view sets to agent
  turn for an isolated job, is left at system event here), and a main job with the payload
  kind set to agent turn.
\<close>

definition isolatedSystemEventEditor :: CronJobEditor where
  "isolatedSystemEventEditor =
     \<lparr>edName = js ''Daily summary'', edEnabled = True, edSessionTarget = targetIsolated,
      edWakeMode = wakeNextHeartbeat, edScheduleKind = kindAt, edAtMs = 1700000000000,
      edEveryText = js ''1h'', edCronExpr = js ''0 9 * * 3'', edCronTz = [],
      edPayloadKind = kindSystemEvent, edSystemEventText = js ''ping'',
      edAgentMessage = js ''Summarize inbox'', edDeliver = False, edChannel = js ''last'',
      edTo = [], edThinking = [], edTimeoutSeconds = [], edBestEffortDeliver = False,
      edPostPrefix = js ''Cron''\<rparr>"

definition mainAgentTurnEditor :: CronJobEditor where
  "mainAgentTurnEditor =
     isolatedSystemEventEditor\<lparr>edSessionTarget := targetMain, edPayloadKind := kindAgentTurn\<rparr>"

section \<open>Facts about strings and summaries\<close>

lemma trim_Nil [simp]: "trim [] = []"
  by (simp add: trim_def)

lemma trim_fixed:
  assumes "s \<noteq> []" and "\<not> isWhiteSpace (hd s)" and "\<not> isWhiteSpace (last s)"
  shows "trim s = s"
proof -
  from assms(1,2) have a: "dropWhile isWhiteSpace s = s"
    by (cases s) simp_all
  from assms(1,3) have b: "dropWhile isWhiteSpace (rev s) = rev s"
    by (cases "rev s") (simp_all add: hd_rev [symmetric])
  show ?thesis
    by (simp add: trim_def a b)
qed

lemma trim_replicate:
  "\<not> isWhiteSpace a \<Longrightarrow> trim (replicate n a) = replicate n a"
  by (simp add: trim_def)

lemma pickSummaryFromOutput_text:
  "pickSummaryFromOutput (payloadText p) =
     (if trimmedText p = [] then None
      else Some (if 2000 < length (trimmedText p)
                 then take 2000 (trimmedText p) @ truncationMarker else trimmedText p))"
  by (simp add: pickSummaryFromOutput_def trimmedText_def Let_def)

lemma pickSummaryLoop_find:
  "n \<le> length ps \<Longrightarrow>
   pickSummaryLoop ps n =
     (case List.find (\<lambda>t. t \<noteq> []) (map trimmedText (rev (take n ps))) of
        None \<Rightarrow> None
      | Some t \<Rightarrow> Some (if 2000 < length t then take 2000 t @ truncationMarker else t))"
proof (induction n)
  case 0
  then show ?case by simp
next
  case (Suc n)
  then have lt: "n < length ps" by simp
  have tk: "take (Suc n) ps = take n ps @ [ps ! n]"
    using lt by (simp add: take_Suc_conv_app_nth)
  from Suc have ih: "pickSummaryLoop ps n =
     (case List.find (\<lambda>t. t \<noteq> []) (map trimmedText (rev (take n ps))) of
        None \<Rightarrow> None
      | Some t \<Rightarrow> Some (if 2000 < length t then take 2000 t @ truncationMarker else t))"
    by simp
  show ?case
    by (simp add: tk pickSummaryFromOutput_text ih)
qed

lemma replicate_snoc: "replicate (Suc n) x = replicate n x @ [x]"
  by (simp add: replicate_append_same)

lemma trimmedText_textPayload [simp]: "trimmedText (textPayload t) = trim t"
  by (simp add: trimmedText_def textPayload_def)

lemma pickSummaryFromPayloads_find:
  "pickSummaryFromPayloads ps =
     (case List.find (\<lambda>t. t \<noteq> []) (map trimmedText (rev ps)) of
        None \<Rightarrow> None
      | Some t \<Rightarrow> Some (if 2000 < length t then take 2000 t @ truncationMarker else t))"
  by (simp add: pickSummaryFromPayloads_def pickSummaryLoop_find)

lemma trim_first: "trim (js ''first'') = js ''first''"
  by (simp add: trim_def js_def isWhiteSpace_def)

lemma trim_blank: "trim (js '' '') = []"
  by (simp add: trim_def js_def isWhiteSpace_def)

lemma trim_last: "trim (js '' last '') = js ''last''"
  by (simp add: trim_def js_def isWhiteSpace_def)

lemma letter_a_not_space: "\<not> isWhiteSpace 0x61"
  by (simp add: isWhiteSpace_def)

section \<open>C7: truncation of the summary\<close>

text \<open>
  C7. The claim says that a text whose trimmed length exceeds 2000 code units gives its
  first 2000 code units followed by a single ellipsis marker, and the test "truncates long
  summaries" expects the summary to end in U+2026. The code does not do that: for a text of
  2001 letters a the summary is 2000 letters a followed by the three code units U+00E2,
  U+20AC and U+00A6, so it has 2003 code units and does not end in U+2026.
\<close>

theorem pickSummaryFromOutput_marker:
  "pickSummaryFromOutput (Some (replicate 2001 0x61)) =
     Some (replicate 2000 0x61 @ [0xE2, 0x20AC, 0xA6]) \<and>
   length (replicate 2000 (0x61 :: 16 word) @ [0xE2, 0x20AC, 0xA6]) = 2003 \<and>
   last (replicate 2000 (0x61 :: 16 word) @ [0xE2, 0x20AC, 0xA6]) \<noteq> 0x2026 \<and>
   pickSummaryFromOutput (Some (replicate 2001 0x61)) \<noteq> Some (replicate 2000 0x61 @ [0x2026])"
proof -
  have t: "trim (replicate 2001 (0x61 :: 16 word)) = replicate 2001 0x61"
    by (rule trim_replicate [OF letter_a_not_space])
  have r: "pickSummaryFromOutput (Some (replicate 2001 0x61)) =
     Some (replicate 2000 0x61 @ [0xE2, 0x20AC, 0xA6])"
    by (simp add: pickSummaryFromOutput_def Let_def t truncationMarker_def)
  show ?thesis
    by (simp add: r)
qed

section \<open>C6: which payload gives the summary\<close>

text \<open>
  C6, as the claim states it, fails: the summary of a payload whose trimmed text has 2001
  code units is not that trimmed text.
\<close>

theorem pickSummaryFromPayloads_long_counterexample:
  "trimmedText (textPayload (replicate 2001 0x61)) \<noteq> [] \<and>
   pickSummaryFromPayloads [textPayload (replicate 2001 0x61)] \<noteq>
     Some (trimmedText (textPayload (replicate 2001 0x61)))"
proof -
  have t: "trim (replicate 2001 (0x61 :: 16 word)) = replicate 2001 0x61"
    by (rule trim_replicate [OF letter_a_not_space])
  have "pickSummaryFromPayloads [textPayload (replicate 2001 0x61)] =
          Some (replicate 2000 0x61 @ truncationMarker)"
    by (simp add: pickSummaryFromPayloads_find t)
  moreover have "length (replicate 2000 (0x61 :: 16 word) @ truncationMarker) \<noteq>
      length (replicate 2001 (0x61 :: 16 word))"
    by (simp add: truncationMarker_def)
  then have "replicate 2000 (0x61 :: 16 word) @ truncationMarker \<noteq> replicate 2001 0x61"
    by (rule contrapos_nn) (simp only:)
  ultimately show ?thesis
    by (simp add: t)
qed

text \<open>
  C6, amended. For every payload list, \<open>pickSummaryFromPayloads\<close> scans from the last payload
  to the first and takes the first payload (in that order) whose trimmed text is non-empty;
  the summary is that trimmed text when it has at most 2000 code units, and its first 2000
  code units followed by the truncation marker otherwise (which marker that is, is the
  subject of C7). If every text trims to empty, or the list is empty, there is no summary.
  For the payloads "first", " ", " last " the summary is "last".
\<close>

theorem pickSummaryFromPayloads_scan:
  "pickSummaryFromPayloads ps =
     (case List.find (\<lambda>t. t \<noteq> []) (map trimmedText (rev ps)) of
        None \<Rightarrow> None
      | Some t \<Rightarrow> Some (if 2000 < length t then take 2000 t @ truncationMarker else t)) \<and>
   pickSummaryFromPayloads [] = None \<and>
   pickSummaryFromPayloads
     [textPayload (js ''first''), textPayload (js '' ''), textPayload (js '' last '')] =
     Some (js ''last'')"
proof (intro conjI)
  show "pickSummaryFromPayloads ps =
     (case List.find (\<lambda>t. t \<noteq> []) (map trimmedText (rev ps)) of
        None \<Rightarrow> None
      | Some t \<Rightarrow> Some (if 2000 < length t then take 2000 t @ truncationMarker else t))"
    by (rule pickSummaryFromPayloads_find)
  show "pickSummaryFromPayloads [] = None"
    by (simp add: pickSummaryFromPayloads_def)
  have "js ''last'' \<noteq> []"
    by (simp add: js_def)
  then show "pickSummaryFromPayloads
     [textPayload (js ''first''), textPayload (js '' ''), textPayload (js '' last '')] =
     Some (js ''last'')"
    by (simp add: pickSummaryFromPayloads_find trim_first trim_blank trim_last)
      (simp add: js_def)
qed

theorem pickSummaryFromPayloads_scan_witness:
  "pickSummaryFromPayloads [textPayload (js ''first''), textPayload (js '' '')] =
     Some (js ''first'')"
proof -
  have n: "js ''first'' \<noteq> []"
    by (simp add: js_def)
  show ?thesis
    using pickSummaryFromPayloads_scan [of "[textPayload (js ''first''), textPayload (js '' '')]"] n
    by (simp add: trim_first trim_blank) (simp add: js_def)
qed

section \<open>Facts about the delivery target\<close>

lemma js_channel_distinct:
  "js ''last'' \<noteq> js ''whatsapp''" "js ''last'' \<noteq> js ''telegram''" "js ''last'' \<noteq> js ''discord''"
  "js ''telegram'' \<noteq> js ''whatsapp''" "js ''discord'' \<noteq> js ''whatsapp''"
  "js ''discord'' \<noteq> js ''telegram''" "js ''webchat'' \<noteq> js ''whatsapp''"
  "js ''whatsapp'' \<noteq> []" "js ''telegram'' \<noteq> []" "js ''discord'' \<noteq> []"
  by (simp_all add: js_def)

lemma resolvedChannel_precedence:
  "resolvedChannel cfg store jc =
     precedenceChannel jc (Option.bind (mainEntry cfg store) lastChannel)"
  by (cases jc; cases "Option.bind (mainEntry cfg store) lastChannel")
     (auto simp add: resolvedChannel_def precedenceChannel_def truthy_def Let_def js_channel_distinct
        js_channel_distinct [symmetric])

lemma candidateTo_precedence:
  "candidateTo cfg store jt = precedenceTo jt (Option.bind (mainEntry cfg store) lastTo)"
  by (cases jt; cases "Option.bind (mainEntry cfg store) lastTo")
     (auto simp add: candidateTo_def precedenceTo_def truthy_def Let_def)

lemma candidateTo_truthy:
  "candidateTo cfg store jt = Some t \<Longrightarrow> t \<noteq> []"
  by (auto simp add: candidateTo_def truthy_def Let_def split: option.splits if_splits)

lemma normalizedAllow_Nil:
  "normalizedAllow nz cfg = [] \<longleftrightarrow> (\<forall>v\<in>set (rawAllow cfg). length (nz v) \<le> 1)"
  by (auto simp add: normalizedAllow_def filter_empty_conv)

lemma mainEntry_makeCfg: "mainEntry makeCfg makeSessionStore = Some mainSession"
  by (simp add: mainEntry_def makeCfg_def makeSessionStore_def sessionCfgOf_def Let_def
      trim_def js_def isWhiteSpace_def)

lemma mainEntry_allowCfg: "mainEntry allowCfg makeSessionStore = Some mainSession"
  by (simp add: mainEntry_def allowCfg_def makeSessionStore_def sessionCfgOf_def Let_def
      trim_def js_def isWhiteSpace_def)

lemma trim_number: "trim (js ''+15559999999'') = js ''+15559999999''"
  by (simp add: trim_def js_def isWhiteSpace_def)

lemma allowCfg_resolved:
  "resolveDeliveryTarget id allowCfg makeSessionStore (Some (js ''whatsapp''))
     (Some (js ''+15559999999'')) =
     \<lparr>channel = js ''whatsapp'', to = Some (js ''+15550001111'')\<rparr>"
proof -
  have c: "resolvedChannel allowCfg makeSessionStore (Some (js ''whatsapp'')) = js ''whatsapp''"
    by (simp add: resolvedChannel_def Let_def)
  have n: "js ''+15559999999'' \<noteq> []" "js ''+15559999999'' \<noteq> js ''+15550001111''"
    by (simp_all add: js_def)
  have t: "candidateTo allowCfg makeSessionStore (Some (js ''+15559999999'')) =
             Some (js ''+15559999999'')"
    using n by (simp add: candidateTo_def Let_def trim_number truthy_def)
  have a: "rawAllow allowCfg = [js ''+15550001111'']"
    by (simp add: rawAllow_def allowCfg_def)
  have w: "js ''*'' \<noteq> js ''+15550001111''" "Suc 0 < length (js ''+15550001111'')"
    by (simp_all add: js_def)
  show ?thesis
    using n w
    by (simp add: resolveDeliveryTarget_def Let_def c t sanitizedWhatsappTo_def
        normalizedAllow_def a truthy_def)
qed

lemma trim_padded: "trim (js '' 123 '') = js ''123''"
  by (simp add: trim_def js_def isWhiteSpace_def)

section \<open>C1: the WhatsApp allowlist\<close>

lemma find_filter:
  "List.find P xs = (case filter P xs of [] \<Rightarrow> None | y # _ \<Rightarrow> Some y)"
  by (induction xs) simp_all

lemma normalizedAllow_map:
  "normalizedAllow nz cfg = map nz (filter (\<lambda>v. 1 < length (nz v)) (rawAllow cfg))"
  by (simp add: normalizedAllow_def filter_map comp_def)

lemma sanitized_listed:
  assumes "js ''*'' \<notin> set (rawAllow cfg)"
    and "filter (\<lambda>v. 1 < length (nz v)) (rawAllow cfg) = first # others"
  shows "sanitizedWhatsappTo nz cfg (js ''whatsapp'') None = Some (nz first)"
    and "t \<noteq> [] \<Longrightarrow> sanitizedWhatsappTo nz cfg (js ''whatsapp'') (Some t) =
           Some (if \<exists>v\<in>set (rawAllow cfg). 1 < length (nz v) \<and> nz v = nz t
                 then nz t else nz first)"
proof -
  have al: "normalizedAllow nz cfg = nz first # map nz others"
    using assms(2) by (simp add: normalizedAllow_map)
  show "sanitizedWhatsappTo nz cfg (js ''whatsapp'') None = Some (nz first)"
    using assms(1) by (simp add: sanitizedWhatsappTo_def al truthy_def)
  have mem: "nz t \<in> set (normalizedAllow nz cfg) \<longleftrightarrow>
      (\<exists>v\<in>set (rawAllow cfg). 1 < length (nz v) \<and> nz v = nz t)"
  proof
    assume "nz t \<in> set (normalizedAllow nz cfg)"
    then show "\<exists>v\<in>set (rawAllow cfg). 1 < length (nz v) \<and> nz v = nz t"
      by (auto simp add: normalizedAllow_map)
  next
    assume "\<exists>v\<in>set (rawAllow cfg). 1 < length (nz v) \<and> nz v = nz t"
    then obtain v where v: "v \<in> set (rawAllow cfg)" "1 < length (nz v)" "nz v = nz t"
      by blast
    from v(1,2) have "nz v \<in> set (normalizedAllow nz cfg)"
      by (auto simp add: normalizedAllow_map)
    with v(3) show "nz t \<in> set (normalizedAllow nz cfg)"
      by simp
  qed
  assume "t \<noteq> []"
  then have tr: "truthy (Some t)"
    by (simp add: truthy_def)
  have "sanitizedWhatsappTo nz cfg (js ''whatsapp'') (Some t) =
          (if nz t \<in> set (normalizedAllow nz cfg) then Some (nz t) else Some (nz first))"
    using assms(1) tr by (simp add: sanitizedWhatsappTo_def Let_def al)
  then show "sanitizedWhatsappTo nz cfg (js ''whatsapp'') (Some t) =
           Some (if \<exists>v\<in>set (rawAllow cfg). 1 < length (nz v) \<and> nz v = nz t
                 then nz t else nz first)"
    by (simp only: mem if_distrib [of Some])
qed

lemma digits_samples:
  "digitsE164 (js ''n/a'') = js ''+''"
  "digitsE164 (js ''+1 (555) 000-1111'') = js ''+15550001111''"
  "digitsE164 (js ''15550002222'') = js ''+15550002222''"
  "digitsE164 (js ''1 555 000 2222'') = js ''+15550002222''"
  "digitsE164 (js ''+15559999999'') = js ''+15559999999''"
  by (simp_all add: digitsE164_def js_def)

lemma mainEntry_listCfg: "mainEntry listCfg makeSessionStore = Some mainSession"
  by (simp add: mainEntry_def listCfg_def makeSessionStore_def sessionCfgOf_def Let_def
      trim_def js_def isWhiteSpace_def)

lemma listCfg_allow:
  "[js ''n/a'', js ''+1 (555) 000-1111'', js ''15550002222''] =
     (case Option.bind (inbound listCfg) allowFrom of None \<Rightarrow> [] | Some a \<Rightarrow> a)"
  by (simp add: listCfg_def)

lemma listCfg_channel:
  "channel (resolveDeliveryTarget nz listCfg makeSessionStore (Some (js ''whatsapp'')) jt) =
     js ''whatsapp''"
  by (simp add: resolveDeliveryTarget_def resolvedChannel_def Let_def)

lemma listCfg_candidates:
  "candidateTo listCfg makeSessionStore None = None"
  "candidateTo listCfg makeSessionStore (Some (js ''1 555 000 2222'')) = Some (js ''1 555 000 2222'')"
  "candidateTo listCfg makeSessionStore (Some (js ''+15559999999'')) = Some (js ''+15559999999'')"
proof -
  show "candidateTo listCfg makeSessionStore None = None"
    by (simp add: candidateTo_def mainEntry_listCfg mainSession_def truthy_def Let_def)
  have t: "trim (js ''1 555 000 2222'') = js ''1 555 000 2222''"
    by (simp add: trim_def js_def isWhiteSpace_def)
  have n: "js ''1 555 000 2222'' \<noteq> []" "js ''+15559999999'' \<noteq> []"
    by (simp_all add: js_def)
  show "candidateTo listCfg makeSessionStore (Some (js ''1 555 000 2222'')) =
      Some (js ''1 555 000 2222'')"
    using n by (simp add: candidateTo_def t truthy_def Let_def)
  show "candidateTo listCfg makeSessionStore (Some (js ''+15559999999'')) =
      Some (js ''+15559999999'')"
    using n by (simp add: candidateTo_def trim_number truthy_def Let_def)
qed

lemma length_js: "length (js s) = length s"
  by (simp add: js_def)

lemma listCfg_distinct:
  "js ''+15550002222'' \<noteq> js ''+15550001111''" "js ''+15559999999'' \<noteq> js ''+15550001111''"
  "js ''+15559999999'' \<noteq> js ''+15550002222''" "js ''+'' \<noteq> js ''+15550002222''"
  "js ''+'' \<noteq> js ''+15559999999''" "js ''+15550001111'' \<noteq> js ''+15550002222''"
  "js ''*'' \<noteq> js ''n/a''" "js ''*'' \<noteq> js ''+1 (555) 000-1111''" "js ''*'' \<noteq> js ''15550002222''"
  by (simp_all add: js_def)

text \<open>
  C1. Let the resolved channel be whatsapp and \<open>allow\<close> the configured allowlist
  (\<open>inbound.allowFrom\<close>, empty when absent); an entry is valid when its normalized form has
  more than one code unit. If \<open>allow\<close> does not contain the wildcard and has a valid entry,
  then for every candidate recipient, also an absent one, the returned recipient is the
  normalized form of a valid entry of \<open>allow\<close>: a candidate whose normalized form is that
  of a valid entry is returned normalized, and an absent or unlisted candidate is replaced
  by the normalized form of the first valid entry of \<open>allow\<close>. If \<open>allow\<close> contains the
  wildcard or has no valid entry, the candidate is returned unchanged.
\<close>

theorem whatsapp_allowlist:
  assumes "channel (resolveDeliveryTarget nz cfg store jc jt) = js ''whatsapp''"
    and "allow = (case Option.bind (inbound cfg) allowFrom of None \<Rightarrow> [] | Some a \<Rightarrow> a)"
  shows "(js ''*'' \<notin> set allow \<and> (\<exists>v\<in>set allow. 1 < length (nz v)) \<longrightarrow>
            (\<exists>v\<in>set allow. 1 < length (nz v) \<and>
                 to (resolveDeliveryTarget nz cfg store jc jt) = Some (nz v)) \<and>
            (\<exists>first. List.find (\<lambda>v. 1 < length (nz v)) allow = Some first \<and>
               (case candidateTo cfg store jt of
                  None \<Rightarrow> to (resolveDeliveryTarget nz cfg store jc jt) = Some (nz first)
                | Some t \<Rightarrow>
                    to (resolveDeliveryTarget nz cfg store jc jt) =
                      Some (if \<exists>v\<in>set allow. 1 < length (nz v) \<and> nz v = nz t
                            then nz t else nz first)))) \<and>
         (js ''*'' \<in> set allow \<or> (\<forall>v\<in>set allow. length (nz v) \<le> 1) \<longrightarrow>
            to (resolveDeliveryTarget nz cfg store jc jt) = candidateTo cfg store jt)"
proof (intro conjI impI)
  from assms(1) have ch: "resolvedChannel cfg store jc = js ''whatsapp''"
    by (simp add: resolveDeliveryTarget_def Let_def)
  have raw: "rawAllow cfg = allow"
    by (simp add: rawAllow_def assms(2))
  have res: "to (resolveDeliveryTarget nz cfg store jc jt) =
      sanitizedWhatsappTo nz cfg (js ''whatsapp'') (candidateTo cfg store jt)"
    by (simp add: resolveDeliveryTarget_def Let_def ch)
  {
    assume h: "js ''*'' \<notin> set allow \<and> (\<exists>v\<in>set allow. 1 < length (nz v))"
    then have "filter (\<lambda>v. 1 < length (nz v)) allow \<noteq> []"
      by (auto simp add: filter_empty_conv)
    then obtain first others where
      f: "filter (\<lambda>v. 1 < length (nz v)) allow = first # others"
      by (cases "filter (\<lambda>v. 1 < length (nz v)) allow") auto
    then have fnd: "List.find (\<lambda>v. 1 < length (nz v)) allow = Some first"
      by (simp add: find_filter)
    have "first \<in> set (filter (\<lambda>v. 1 < length (nz v)) allow)"
      unfolding f by simp
    then have fv: "first \<in> set allow \<and> 1 < length (nz first)"
      by simp
    have cases: "case candidateTo cfg store jt of
                  None \<Rightarrow> to (resolveDeliveryTarget nz cfg store jc jt) = Some (nz first)
                | Some t \<Rightarrow>
                    to (resolveDeliveryTarget nz cfg store jc jt) =
                      Some (if \<exists>v\<in>set allow. 1 < length (nz v) \<and> nz v = nz t
                            then nz t else nz first)"
    proof (cases "candidateTo cfg store jt")
      case None
      with h f show ?thesis
        by (simp add: res sanitized_listed(1) [of cfg nz first others] raw)
    next
      case (Some t)
      then have "t \<noteq> []"
        by (rule candidateTo_truthy)
      with h f Some show ?thesis
        using sanitized_listed(2) [of cfg nz first others t]
        by (simp add: res raw)
    qed
    with fnd show "\<exists>first. List.find (\<lambda>v. 1 < length (nz v)) allow = Some first \<and>
               (case candidateTo cfg store jt of
                  None \<Rightarrow> to (resolveDeliveryTarget nz cfg store jc jt) = Some (nz first)
                | Some t \<Rightarrow>
                    to (resolveDeliveryTarget nz cfg store jc jt) =
                      Some (if \<exists>v\<in>set allow. 1 < length (nz v) \<and> nz v = nz t
                            then nz t else nz first))"
      by blast
    show "\<exists>v\<in>set allow. 1 < length (nz v) \<and>
                 to (resolveDeliveryTarget nz cfg store jc jt) = Some (nz v)"
      using cases fv by (cases "candidateTo cfg store jt") (auto split: if_splits)
  }
  assume "js ''*'' \<in> set allow \<or> (\<forall>v\<in>set allow. length (nz v) \<le> 1)"
  then have "js ''*'' \<in> set (rawAllow cfg) \<or> normalizedAllow nz cfg = []"
    by (simp add: normalizedAllow_Nil raw)
  then show "to (resolveDeliveryTarget nz cfg store jc jt) = candidateTo cfg store jt"
    by (auto simp add: res sanitizedWhatsappTo_def)
qed

theorem whatsapp_allowlist_witness:
  "channel (resolveDeliveryTarget digitsE164 listCfg makeSessionStore (Some (js ''whatsapp''))
      None) = js ''whatsapp'' \<and>
   js ''*'' \<notin> set [js ''n/a'', js ''+1 (555) 000-1111'', js ''15550002222''] \<and>
   (\<exists>v\<in>set [js ''n/a'', js ''+1 (555) 000-1111'', js ''15550002222'']. 1 < length (digitsE164 v)) \<and>
   to (resolveDeliveryTarget digitsE164 listCfg makeSessionStore (Some (js ''whatsapp''))
      None) = Some (js ''+15550001111'') \<and>
   to (resolveDeliveryTarget digitsE164 listCfg makeSessionStore (Some (js ''whatsapp''))
      (Some (js ''1 555 000 2222''))) = Some (js ''+15550002222'') \<and>
   to (resolveDeliveryTarget digitsE164 listCfg makeSessionStore (Some (js ''whatsapp''))
      (Some (js ''+15559999999''))) = Some (js ''+15550001111'')"
  using whatsapp_allowlist [OF listCfg_channel listCfg_allow, of digitsE164 None]
    whatsapp_allowlist [OF listCfg_channel listCfg_allow, of digitsE164 "Some (js ''1 555 000 2222'')"]
    whatsapp_allowlist [OF listCfg_channel listCfg_allow, of digitsE164 "Some (js ''+15559999999'')"]
  by (simp add: listCfg_channel listCfg_candidates digits_samples listCfg_distinct
      listCfg_distinct [symmetric] length_js)

section \<open>C5: precedence of recipient and channel\<close>

text \<open>
  C5, as the claim states it, fails: on whatsapp with an allowlist that lists one number,
  an explicit \<open>to\<close> that is not listed does not win; the listed number is returned.
\<close>

theorem resolveDeliveryTarget_explicit_counterexample:
  "trim (js ''+15559999999'') \<noteq> [] \<and>
   to (resolveDeliveryTarget id allowCfg makeSessionStore (Some (js ''whatsapp''))
         (Some (js ''+15559999999''))) = Some (js ''+15550001111'') \<and>
   to (resolveDeliveryTarget id allowCfg makeSessionStore (Some (js ''whatsapp''))
         (Some (js ''+15559999999''))) \<noteq> Some (js ''+15559999999'')"
  by (simp add: allowCfg_resolved trim_number) (simp add: js_def)

text \<open>
  C5, amended. For every input, the channel is the requested channel when that is whatsapp,
  telegram or discord, otherwise the last-route channel of the main session when that is
  present, non-empty and not webchat, otherwise whatsapp. The candidate recipient is the
  explicit \<open>to\<close>, trimmed, when that is non-empty after trimming, otherwise the last-route
  \<open>to\<close> of the main session, trimmed, and absent if that is empty. The returned recipient is
  the candidate, except on whatsapp, where the candidate goes through the allowlist (C1).
\<close>

theorem resolveDeliveryTarget_precedence:
  "resolveDeliveryTarget nz cfg store jc jt =
     \<lparr>channel = precedenceChannel jc (Option.bind (mainEntry cfg store) lastChannel),
      to = (if precedenceChannel jc (Option.bind (mainEntry cfg store) lastChannel) = js ''whatsapp''
            then sanitizedWhatsappTo nz cfg (js ''whatsapp'')
                   (precedenceTo jt (Option.bind (mainEntry cfg store) lastTo))
            else precedenceTo jt (Option.bind (mainEntry cfg store) lastTo))\<rparr>"
  by (simp add: resolveDeliveryTarget_def Let_def resolvedChannel_precedence candidateTo_precedence)

theorem resolveDeliveryTarget_precedence_witness:
  "resolveDeliveryTarget id makeCfg makeSessionStore (Some (js ''telegram''))
     (Some (js '' 123 '')) = \<lparr>channel = js ''telegram'', to = Some (js ''123'')\<rparr>"
proof -
  have n: "js ''123'' \<noteq> []"
    by (simp add: js_def)
  show ?thesis
    using resolveDeliveryTarget_precedence [of id makeCfg makeSessionStore
        "Some (js ''telegram'')" "Some (js '' 123 '')"] n
    by (simp add: precedenceChannel_def precedenceTo_def js_channel_distinct trim_padded)
qed

section \<open>Facts about binary64 rounding\<close>



















lemma toDouble_zero [simp]: "toDouble 0 = 0"
  by (simp add: toDouble_def)

section \<open>C2: freshness of a cron session\<close>





section \<open>Facts about the run\<close>

lemma extractSummary_eq: "extractSummary ps = pickSummaryFromPayloads ps"
proof (cases "pickSummaryFromPayloads ps")
  case (Some s)
  then show ?thesis by (simp add: extractSummary_def Let_def)
next
  case None
  then have f: "List.find (\<lambda>t. t \<noteq> []) (map trimmedText (rev ps)) = None"
    by (simp add: pickSummaryFromPayloads_find split: option.splits)
  have "pickSummaryFromOutput (Some (case ps of [] \<Rightarrow> [] | p # _ \<Rightarrow> textOrEmpty p)) = None"
  proof (cases ps)
    case Nil
    then show ?thesis by (simp add: pickSummaryFromOutput_def)
  next
    case (Cons p rest)
    with f have "trimmedText p = []"
      by (auto simp add: find_None_iff)
    then show ?thesis
      using Cons by (simp add: pickSummaryFromOutput_def textOrEmpty_def trimmedText_def Let_def)
  qed
  with None show ?thesis
    by (simp add: extractSummary_def Let_def)
qed


lemma afterSends_events: "snd (afterSends b sm sent) = snd sent"
  by (cases sent) (auto simp add: afterSends_def split: option.splits)


lemma deliverResult_shape:
  "(\<exists>calls. deliverResult w d b target ps sm =
       afterSends b sm (performSends (sendOutcome w) [] calls)) \<or>
   snd (deliverResult w d b target ps sm) = []"
  by (auto simp add: deliverResult_def Let_def)


lemma run_returned:
  assumes "assertCommandReplyConfig cfg = Inr rc" and "commandReply w = Inr pl"
  shows "result (runCronIsolatedAgentTurn w cfg job key) =
           Inr (fst (deliverResult w (jobDelivery job) (jobBestEffort job)
                  (jobResolvedDelivery w cfg job) (case pl of None \<Rightarrow> [] | Some ps \<Rightarrow> ps)
                  (extractSummary (case pl of None \<Rightarrow> [] | Some ps \<Rightarrow> ps))))"
    and "\<exists>saved. events (runCronIsolatedAgentTurn w cfg job key) =
           [saveSessionStore saved, runCommandReply] @
           snd (deliverResult w (jobDelivery job) (jobBestEffort job)
                  (jobResolvedDelivery w cfg job) (case pl of None \<Rightarrow> [] | Some ps \<Rightarrow> ps)
                  (extractSummary (case pl of None \<Rightarrow> [] | Some ps \<Rightarrow> ps)))"
  using assms by (simp_all add: runCronIsolatedAgentTurn_def Let_def split: prod.splits)


lemma performSends_isSend: "\<forall>ev\<in>set (snd (performSends outcome made calls)). isSend ev"
proof (induction calls arbitrary: made)
  case Nil
  then show ?case by simp
next
  case (Cons a calls)
  show ?case
  proof (cases "outcome made a")
    case (Some e)
    then show ?thesis by (simp add: isSend_def)
  next
    case None
    with Cons.IH [of "made @ [a]"] show ?thesis
      by (auto simp add: isSend_def split: prod.splits)
  qed
qed

lemma deliverResult_isSend: "\<forall>ev\<in>set (snd (deliverResult w d b target ps sm)). isSend ev"
  using deliverResult_shape [of w d b target ps sm] performSends_isSend
  by (auto simp add: afterSends_events)

lemma persistedStore_sends:
  "\<forall>ev\<in>set evs. isSend ev \<Longrightarrow> persistedStore st evs = st"
  unfolding persistedStore_def
  by (induction evs arbitrary: st) (auto simp add: isSend_def split: Event.splits)

lemma persistedStore_Cons:
  "persistedStore st (saveSessionStore st' # runCommandReply # evs) = persistedStore st' evs"
  by (simp add: persistedStore_def)

lemma run_events:
  assumes "assertCommandReplyConfig cfg = Inr rc"
  shows "\<exists>rest. events (runCronIsolatedAgentTurn w cfg job key) =
     saveSessionStore
       ((loadedStore w)(key \<mapsto>
          (if Option.bind (session rc) sendSystemOnce = Some True \<and>
              (isNewSession (resolveCronSession (defaultIdleMinutes w) (randomUUID w) cfg
                              (loadedStore w) key (dateNow w)) \<or>
               \<not> systemWasSent (resolveCronSession (defaultIdleMinutes w) (randomUUID w) cfg
                              (loadedStore w) key (dateNow w)))
           then (sessionEntry (resolveCronSession (defaultIdleMinutes w) (randomUUID w) cfg
                              (loadedStore w) key (dateNow w)))\<lparr>systemSent := Some True\<rparr>
           else sessionEntry (resolveCronSession (defaultIdleMinutes w) (randomUUID w) cfg
                              (loadedStore w) key (dateNow w))))) #
     runCommandReply # rest \<and> (\<forall>ev\<in>set rest. isSend ev) \<and>
     (\<forall>err. commandReply w = Inl err \<longrightarrow> rest = [] \<and>
        result (runCronIsolatedAgentTurn w cfg job key) =
          Inr \<lparr>status = statusError, summary = None, error = Some err\<rparr>)"
proof -
  have st: "sessionStore (resolveCronSession (defaultIdleMinutes w) (randomUUID w) cfg
                              (loadedStore w) key (dateNow w)) = loadedStore w"
    by (simp add: resolveCronSession_def Let_def)
  show ?thesis
  proof (cases "commandReply w")
    case (Inl err)
    with assms show ?thesis
      by (simp add: runCronIsolatedAgentTurn_def Let_def st)
  next
    case (Inr pl)
    with assms show ?thesis
      using deliverResult_isSend
      by (simp add: runCronIsolatedAgentTurn_def Let_def st split: prod.splits)
        (metis snd_conv)
  qed
qed

lemma js_channel_distinct2:
  "js ''telegram'' \<noteq> js ''discord''" "js ''whatsapp'' \<noteq> js ''telegram''"
  "js ''whatsapp'' \<noteq> js ''discord''"
  by (simp_all add: js_def)

lemma deliverResult_no_recipient:
  assumes "d" and "\<not> truthy (to target)"
    and "channel target = js ''whatsapp'' \<or> channel target = js ''telegram'' \<or>
         channel target = js ''discord''"
  shows "deliverResult w d b target ps sm =
     (if b then \<lparr>status = statusSkipped, summary = Some (skipNotice (channel target)), error = None\<rparr>
      else \<lparr>status = statusError, summary = sm,
             error = Some (recipientRequired (channel target))\<rparr>, [])"
  using assms
  by (auto simp add: deliverResult_def skipNotice_def recipientRequired_def
      js_channel_distinct js_channel_distinct2)

lemma afterSends_not_skipped: "status (fst (afterSends b sm sent)) \<noteq> statusSkipped"
  by (cases sent) (auto simp add: afterSends_def split: option.splits)

lemma deliverResult_skipped:
  assumes "status (fst (deliverResult w d b target ps sm)) = statusSkipped"
  shows "d \<and> b \<and> \<not> truthy (to target) \<and>
     (channel target = js ''whatsapp'' \<or> channel target = js ''telegram'' \<or>
      channel target = js ''discord'')"
  using assms
  by (auto simp add: deliverResult_def Let_def afterSends_not_skipped split: if_splits)

lemma run_skipped:
  assumes "result (runCronIsolatedAgentTurn w cfg job key) = Inr res"
    and "status res = statusSkipped"
  shows "\<exists>rc pl. assertCommandReplyConfig cfg = Inr rc \<and> commandReply w = Inr pl \<and>
     res = fst (deliverResult w (jobDelivery job) (jobBestEffort job)
                  (jobResolvedDelivery w cfg job) (case pl of None \<Rightarrow> [] | Some ps \<Rightarrow> ps)
                  (extractSummary (case pl of None \<Rightarrow> [] | Some ps \<Rightarrow> ps)))"
  using assms
  by (auto simp add: runCronIsolatedAgentTurn_def Let_def split: sum.splits prod.splits)

lemma assert_makeCfg:
  "assertCommandReplyConfig makeCfg =
     Inr \<lparr>mode = Some (js ''command''), command = Some [js ''echo'', js ''ok''],
          session = Some \<lparr>mainKey = Some (js ''main''), idleMinutes = None,
                          sendSystemOnce = None\<rparr>\<rparr>"
  by (simp add: assertCommandReplyConfig_def makeCfg_def)

lemma assert_onceCfg:
  "assertCommandReplyConfig onceCfg =
     Inr \<lparr>mode = Some (js ''command''), command = Some [js ''echo'', js ''ok''],
          session = Some \<lparr>mainKey = Some (js ''main''), idleMinutes = Some 10,
                          sendSystemOnce = Some True\<rparr>\<rparr>"
  by (simp add: assertCommandReplyConfig_def onceCfg_def)

lemma job_flags:
  "jobDelivery (makeJob (deliverOn ch r b))" "jobBestEffort (makeJob (deliverOn ch r b)) = b"
  by (simp_all add: jobDelivery_def jobBestEffort_def makeJob_def deliverOn_def)

lemma world_fields:
  "commandReply (testWorld a s) = a" "loadedStore (testWorld a s) = makeSessionStore"
  "normalizeE164 (testWorld a s) = id" "sendOutcome (testWorld a s) = everySend s"
  "discordToken (testWorld a s) = None" "chunkText (testWorld a s) = oneChunk"
  by (simp_all add: testWorld_def)

lemma candidate_none: "candidateTo makeCfg makeSessionStore None = None"
  by (simp add: candidateTo_def mainEntry_makeCfg mainSession_def truthy_def Let_def)

lemma rawAllow_makeCfg: "rawAllow makeCfg = []"
  by (simp add: rawAllow_def makeCfg_def)

lemma whatsapp_target:
  "jobResolvedDelivery (testWorld a s) makeCfg (makeJob (deliverOn (js ''whatsapp'') None b)) =
     \<lparr>channel = js ''whatsapp'', to = None\<rparr>"
  by (simp add: jobResolvedDelivery_def world_fields makeJob_def deliverOn_def
      resolveDeliveryTarget_def resolvedChannel_def candidate_none Let_def
      sanitizedWhatsappTo_def rawAllow_makeCfg normalizedAllow_def)



lemma hello_summary: "pickSummaryFromPayloads [textPayload (js ''hello'')] = Some (js ''hello'')"
proof -
  have "trim (js ''hello'') = js ''hello''"
    by (simp add: trim_def js_def isWhiteSpace_def)
  moreover have "js ''hello'' \<noteq> []"
    by (simp add: js_def)
  ultimately show ?thesis
    by (simp add: pickSummaryFromPayloads_find) (simp add: js_def)
qed

lemma world_numbers:
  "defaultIdleMinutes (testWorld a s) = 60" "randomUUID (testWorld a s) = js ''minted''"
  "dateNow (testWorld a s) = 2000"
  by (simp_all add: testWorld_def)

lemma cron_key_absent: "makeSessionStore (js ''cron:job-1'') = None"
  by (simp add: makeSessionStore_def) (simp add: js_def)

lemma cron_key_new:
  "isNewSession (resolveCronSession 60 (js ''minted'') onceCfg makeSessionStore
     (js ''cron:job-1'') 2000)"
  by (simp add: resolveCronSession_def cron_key_absent Let_def)

section \<open>C3: delivery on whatsapp without a recipient\<close>

text \<open>
  C3, as the claim states it, fails: when the agent command rejects, a run that asks for
  best-effort delivery on whatsapp and resolves no recipient returns status error with the
  error of the agent, not status skipped.
\<close>

theorem agent_failure_counterexample:
  "jobDelivery (makeJob (deliverOn (js ''whatsapp'') None True)) \<and>
   jobBestEffort (makeJob (deliverOn (js ''whatsapp'') None True)) \<and>
   jobResolvedDelivery (testWorld (Inl (js ''Error: boom'')) None) makeCfg
      (makeJob (deliverOn (js ''whatsapp'') None True)) = \<lparr>channel = js ''whatsapp'', to = None\<rparr> \<and>
   result (runCronIsolatedAgentTurn (testWorld (Inl (js ''Error: boom'')) None) makeCfg
      (makeJob (deliverOn (js ''whatsapp'') None True)) (js ''cron:job-1'')) =
     Inr \<lparr>status = statusError, summary = None, error = Some (js ''Error: boom'')\<rparr>"
  by (simp add: job_flags whatsapp_target)
    (simp add: runCronIsolatedAgentTurn_def assert_makeCfg world_fields Let_def)

text \<open>
  C3, amended. For every isolated agent-turn run whose configuration passes
  \<open>assertCommandReplyConfig\<close> and whose agent command returns, that requests delivery,
  resolves the channel whatsapp and resolves no recipient: when \<open>bestEffortDeliver\<close> is false
  the run returns status error with the error "Cron delivery to WhatsApp requires a
  recipient." and the summary of the agent; when it is true the run returns status skipped.
  In both cases the run makes no send call.
\<close>

theorem whatsapp_no_recipient:
  assumes "assertCommandReplyConfig cfg = Inr rc"
    and "commandReply w = Inr pl"
    and "jobDelivery job"
    and "channel (jobResolvedDelivery w cfg job) = js ''whatsapp''"
    and "\<not> truthy (to (jobResolvedDelivery w cfg job))"
  shows "result (runCronIsolatedAgentTurn w cfg job key) =
     Inr (if jobBestEffort job
          then \<lparr>status = statusSkipped,
                summary = Some (js ''Delivery skipped (no WhatsApp recipient).''),
                error = None\<rparr>
          else \<lparr>status = statusError,
                summary = pickSummaryFromPayloads (case pl of None \<Rightarrow> [] | Some ps \<Rightarrow> ps),
                error = Some (js ''Cron delivery to WhatsApp requires a recipient.'')\<rparr>) \<and>
     (\<forall>ev\<in>set (events (runCronIsolatedAgentTurn w cfg job key)). \<not> isSend ev)"
proof -
  have d: "deliverResult w (jobDelivery job) (jobBestEffort job)
             (jobResolvedDelivery w cfg job) (case pl of None \<Rightarrow> [] | Some ps \<Rightarrow> ps)
             (extractSummary (case pl of None \<Rightarrow> [] | Some ps \<Rightarrow> ps)) =
     (if jobBestEffort job
      then \<lparr>status = statusSkipped,
            summary = Some (js ''Delivery skipped (no WhatsApp recipient).''),
            error = None\<rparr>
      else \<lparr>status = statusError,
            summary = pickSummaryFromPayloads (case pl of None \<Rightarrow> [] | Some ps \<Rightarrow> ps),
            error = Some (js ''Cron delivery to WhatsApp requires a recipient.'')\<rparr>, [])"
    using assms(3,4,5)
    by (simp add: deliverResult_no_recipient skipNotice_def recipientRequired_def extractSummary_eq)
  show ?thesis
    using run_returned [OF assms(1,2), of job key]
    by (auto simp add: d isSend_def)
qed

theorem whatsapp_no_recipient_witness:
  "jobDelivery (makeJob (deliverOn (js ''whatsapp'') None False)) \<and>
   channel (jobResolvedDelivery (testWorld (Inr (Some [textPayload (js ''hello'')])) None) makeCfg
      (makeJob (deliverOn (js ''whatsapp'') None False))) = js ''whatsapp'' \<and>
   \<not> truthy (to (jobResolvedDelivery (testWorld (Inr (Some [textPayload (js ''hello'')])) None)
      makeCfg (makeJob (deliverOn (js ''whatsapp'') None False)))) \<and>
   result (runCronIsolatedAgentTurn (testWorld (Inr (Some [textPayload (js ''hello'')])) None)
      makeCfg (makeJob (deliverOn (js ''whatsapp'') None False)) (js ''cron:job-1'')) =
     Inr \<lparr>status = statusError, summary = Some (js ''hello''),
          error = Some (js ''Cron delivery to WhatsApp requires a recipient.'')\<rparr> \<and>
   result (runCronIsolatedAgentTurn (testWorld (Inr (Some [textPayload (js ''hello'')])) None)
      makeCfg (makeJob (deliverOn (js ''whatsapp'') None True)) (js ''cron:job-1'')) =
     Inr \<lparr>status = statusSkipped, summary = Some (js ''Delivery skipped (no WhatsApp recipient).''),
          error = None\<rparr>"
proof -
  have t: "\<not> truthy None"
    by (simp add: truthy_def)
  show ?thesis
    using whatsapp_no_recipient [OF assert_makeCfg, of
        "testWorld (Inr (Some [textPayload (js ''hello'')])) None" "Some [textPayload (js ''hello'')]"
        "makeJob (deliverOn (js ''whatsapp'') None False)" "js ''cron:job-1''"]
      whatsapp_no_recipient [OF assert_makeCfg, of
        "testWorld (Inr (Some [textPayload (js ''hello'')])) None" "Some [textPayload (js ''hello'')]"
        "makeJob (deliverOn (js ''whatsapp'') None True)" "js ''cron:job-1''"]
    by (simp add: world_fields job_flags whatsapp_target t hello_summary)
qed

section \<open>C4: a send call that throws\<close>



section \<open>C8: systemSent is saved before the agent runs\<close>

text \<open>
  C8. When the configuration passes \<open>assertCommandReplyConfig\<close>, the send-system-once policy
  is enabled and the run is the first turn in its session (the session is new, or
  \<open>systemSent\<close> is not set), the first event of the run is the save of the session store in
  which the entry of the session key has \<open>systemSent = true\<close>, the second is the invocation of
  the agent command, and only send calls follow. So the store that is persisted after the
  run has \<open>systemSent = true\<close> for the session key whatever the agent command does; when it
  rejects, the run returns status error and the two events are all that happened.
\<close>

theorem systemSent_saved_before_agent:
  assumes "assertCommandReplyConfig cfg = Inr rc"
    and "Option.bind (session rc) sendSystemOnce = Some True"
    and "isNewSession (resolveCronSession (defaultIdleMinutes w) (randomUUID w) cfg
            (loadedStore w) key (dateNow w)) \<or>
         \<not> systemWasSent (resolveCronSession (defaultIdleMinutes w) (randomUUID w) cfg
            (loadedStore w) key (dateNow w))"
  shows "\<exists>saved rest.
     events (runCronIsolatedAgentTurn w cfg job key) =
       saveSessionStore saved # runCommandReply # rest \<and>
     (\<forall>ev\<in>set rest. isSend ev) \<and>
     saved key = Some ((sessionEntry (resolveCronSession (defaultIdleMinutes w) (randomUUID w) cfg
                          (loadedStore w) key (dateNow w)))\<lparr>systemSent := Some True\<rparr>) \<and>
     Option.bind (saved key) systemSent = Some True \<and>
     persistedStore (loadedStore w) (events (runCronIsolatedAgentTurn w cfg job key)) = saved \<and>
     (\<forall>err. commandReply w = Inl err \<longrightarrow>
        events (runCronIsolatedAgentTurn w cfg job key) = [saveSessionStore saved, runCommandReply] \<and>
        result (runCronIsolatedAgentTurn w cfg job key) =
          Inr \<lparr>status = statusError, summary = None, error = Some err\<rparr>)"
proof -
  from run_events [OF assms(1), of w job key] assms(2,3) obtain rest where
    ev: "events (runCronIsolatedAgentTurn w cfg job key) =
       saveSessionStore ((loadedStore w)(key \<mapsto>
          (sessionEntry (resolveCronSession (defaultIdleMinutes w) (randomUUID w) cfg
                          (loadedStore w) key (dateNow w)))\<lparr>systemSent := Some True\<rparr>)) #
       runCommandReply # rest"
    and sends: "\<forall>ev\<in>set rest. isSend ev"
    and failed: "\<forall>err. commandReply w = Inl err \<longrightarrow> rest = [] \<and>
        result (runCronIsolatedAgentTurn w cfg job key) =
          Inr \<lparr>status = statusError, summary = None, error = Some err\<rparr>"
    by auto
  show ?thesis
    using ev sends failed
    by (intro exI [of _ "(loadedStore w)(key \<mapsto>
          (sessionEntry (resolveCronSession (defaultIdleMinutes w) (randomUUID w) cfg
                          (loadedStore w) key (dateNow w)))\<lparr>systemSent := Some True\<rparr>)"]
        exI [of _ rest])
      (simp add: persistedStore_Cons persistedStore_sends)
qed

theorem systemSent_saved_before_agent_witness:
  "isNewSession (resolveCronSession 60 (js ''minted'') onceCfg makeSessionStore
     (js ''cron:job-1'') 2000) \<and>
   (\<exists>saved.
      events (runCronIsolatedAgentTurn (testWorld (Inl (js ''Error: boom'')) None) onceCfg
        (makeJob (deliverOn (js ''whatsapp'') None False)) (js ''cron:job-1'')) =
        [saveSessionStore saved, runCommandReply] \<and>
      Option.bind (saved (js ''cron:job-1'')) systemSent = Some True \<and>
      persistedStore makeSessionStore
        (events (runCronIsolatedAgentTurn (testWorld (Inl (js ''Error: boom'')) None) onceCfg
           (makeJob (deliverOn (js ''whatsapp'') None False)) (js ''cron:job-1''))) = saved) \<and>
   result (runCronIsolatedAgentTurn (testWorld (Inl (js ''Error: boom'')) None) onceCfg
      (makeJob (deliverOn (js ''whatsapp'') None False)) (js ''cron:job-1'')) =
     Inr \<lparr>status = statusError, summary = None, error = Some (js ''Error: boom'')\<rparr>"
proof -
  have p: "Option.bind (session \<lparr>mode = Some (js ''command''), command = Some [js ''echo'', js ''ok''],
          session = Some \<lparr>mainKey = Some (js ''main''), idleMinutes = Some 10,
                          sendSystemOnce = Some True\<rparr>\<rparr>) sendSystemOnce = Some True"
    by simp
  have f: "isNewSession (resolveCronSession
             (defaultIdleMinutes (testWorld (Inl (js ''Error: boom'')) None))
             (randomUUID (testWorld (Inl (js ''Error: boom'')) None)) onceCfg
             (loadedStore (testWorld (Inl (js ''Error: boom'')) None)) (js ''cron:job-1'')
             (dateNow (testWorld (Inl (js ''Error: boom'')) None))) \<or>
           \<not> systemWasSent (resolveCronSession
             (defaultIdleMinutes (testWorld (Inl (js ''Error: boom'')) None))
             (randomUUID (testWorld (Inl (js ''Error: boom'')) None)) onceCfg
             (loadedStore (testWorld (Inl (js ''Error: boom'')) None)) (js ''cron:job-1'')
             (dateNow (testWorld (Inl (js ''Error: boom'')) None)))"
    by (simp add: world_numbers world_fields cron_key_new)
  show ?thesis
    using systemSent_saved_before_agent [OF assert_onceCfg p f, of
        "makeJob (deliverOn (js ''whatsapp'') None False)"]
    by (auto simp add: world_fields cron_key_new)
qed

section \<open>C10: the summary of a skipped delivery\<close>

lemma no_recipient_target:
  assumes "ch = js ''telegram'' \<or> ch = js ''discord''"
  shows "jobResolvedDelivery (testWorld a s) makeCfg (makeJob (deliverOn ch None b)) =
     \<lparr>channel = ch, to = None\<rparr>"
  using assms
  by (auto simp add: jobResolvedDelivery_def world_fields makeJob_def deliverOn_def
      resolveDeliveryTarget_def resolvedChannel_def candidate_none Let_def js_channel_distinct
      js_channel_distinct [symmetric])

text \<open>
  C10. When the configuration is valid, the agent command returned, delivery is requested and
  no recipient resolves: with \<open>bestEffortDeliver = true\<close> the run returns status skipped and
  the summary of the result is the fixed notice of the channel ("Delivery skipped (no
  WhatsApp recipient)." on whatsapp, "Delivery skipped (no Telegram chatId)." on telegram,
  "Delivery skipped (no Discord destination)." on discord), whatever the payloads of the
  agent are; with \<open>bestEffortDeliver = false\<close> the run returns status error with the summary
  extracted from the payloads of the agent. Conversely, a result with status skipped arises
  only in that situation and its summary is one of the three notices.
\<close>

theorem no_recipient_summary:
  "(assertCommandReplyConfig cfg = Inr rc \<and> commandReply w = Inr pl \<and> jobDelivery job \<and>
    \<not> truthy (to (jobResolvedDelivery w cfg job)) \<longrightarrow>
      (channel (jobResolvedDelivery w cfg job) = js ''whatsapp'' \<longrightarrow>
         result (runCronIsolatedAgentTurn w cfg job key) =
           Inr (if jobBestEffort job
                then \<lparr>status = statusSkipped,
                      summary = Some (js ''Delivery skipped (no WhatsApp recipient).''),
                      error = None\<rparr>
                else \<lparr>status = statusError,
                      summary = pickSummaryFromPayloads (case pl of None \<Rightarrow> [] | Some ps \<Rightarrow> ps),
                      error = Some (js ''Cron delivery to WhatsApp requires a recipient.'')\<rparr>)) \<and>
      (channel (jobResolvedDelivery w cfg job) = js ''telegram'' \<longrightarrow>
         result (runCronIsolatedAgentTurn w cfg job key) =
           Inr (if jobBestEffort job
                then \<lparr>status = statusSkipped,
                      summary = Some (js ''Delivery skipped (no Telegram chatId).''),
                      error = None\<rparr>
                else \<lparr>status = statusError,
                      summary = pickSummaryFromPayloads (case pl of None \<Rightarrow> [] | Some ps \<Rightarrow> ps),
                      error = Some (js ''Cron delivery to Telegram requires a chatId.'')\<rparr>)) \<and>
      (channel (jobResolvedDelivery w cfg job) = js ''discord'' \<longrightarrow>
         result (runCronIsolatedAgentTurn w cfg job key) =
           Inr (if jobBestEffort job
                then \<lparr>status = statusSkipped,
                      summary = Some (js ''Delivery skipped (no Discord destination).''),
                      error = None\<rparr>
                else \<lparr>status = statusError,
                      summary = pickSummaryFromPayloads (case pl of None \<Rightarrow> [] | Some ps \<Rightarrow> ps),
                      error = Some (js ''Cron delivery to Discord requires --channel discord and --to <channelId|user:ID>'')\<rparr>))) \<and>
   (\<forall>res. result (runCronIsolatedAgentTurn w cfg job key) = Inr res \<and>
      status res = statusSkipped \<longrightarrow>
        jobDelivery job \<and> jobBestEffort job \<and> \<not> truthy (to (jobResolvedDelivery w cfg job)) \<and>
        error res = None \<and>
        (summary res = Some (js ''Delivery skipped (no WhatsApp recipient).'') \<or>
         summary res = Some (js ''Delivery skipped (no Telegram chatId).'') \<or>
         summary res = Some (js ''Delivery skipped (no Discord destination).'')))"
proof (intro conjI impI allI)
  assume h: "assertCommandReplyConfig cfg = Inr rc \<and> commandReply w = Inr pl \<and> jobDelivery job \<and>
    \<not> truthy (to (jobResolvedDelivery w cfg job))"
  then have r: "result (runCronIsolatedAgentTurn w cfg job key) =
           Inr (fst (deliverResult w (jobDelivery job) (jobBestEffort job)
                  (jobResolvedDelivery w cfg job) (case pl of None \<Rightarrow> [] | Some ps \<Rightarrow> ps)
                  (extractSummary (case pl of None \<Rightarrow> [] | Some ps \<Rightarrow> ps))))"
    by (simp add: run_returned(1))
  {
    assume "channel (jobResolvedDelivery w cfg job) = js ''whatsapp''"
    with h show "result (runCronIsolatedAgentTurn w cfg job key) =
           Inr (if jobBestEffort job
                then \<lparr>status = statusSkipped,
                      summary = Some (js ''Delivery skipped (no WhatsApp recipient).''),
                      error = None\<rparr>
                else \<lparr>status = statusError,
                      summary = pickSummaryFromPayloads (case pl of None \<Rightarrow> [] | Some ps \<Rightarrow> ps),
                      error = Some (js ''Cron delivery to WhatsApp requires a recipient.'')\<rparr>)"
      by (simp add: r deliverResult_no_recipient skipNotice_def recipientRequired_def
          extractSummary_eq)
  }
  {
    assume "channel (jobResolvedDelivery w cfg job) = js ''telegram''"
    with h show "result (runCronIsolatedAgentTurn w cfg job key) =
           Inr (if jobBestEffort job
                then \<lparr>status = statusSkipped,
                      summary = Some (js ''Delivery skipped (no Telegram chatId).''),
                      error = None\<rparr>
                else \<lparr>status = statusError,
                      summary = pickSummaryFromPayloads (case pl of None \<Rightarrow> [] | Some ps \<Rightarrow> ps),
                      error = Some (js ''Cron delivery to Telegram requires a chatId.'')\<rparr>)"
      by (simp add: r deliverResult_no_recipient skipNotice_def recipientRequired_def
          extractSummary_eq js_channel_distinct)
  }
  {
    assume "channel (jobResolvedDelivery w cfg job) = js ''discord''"
    with h show "result (runCronIsolatedAgentTurn w cfg job key) =
           Inr (if jobBestEffort job
                then \<lparr>status = statusSkipped,
                      summary = Some (js ''Delivery skipped (no Discord destination).''),
                      error = None\<rparr>
                else \<lparr>status = statusError,
                      summary = pickSummaryFromPayloads (case pl of None \<Rightarrow> [] | Some ps \<Rightarrow> ps),
                      error = Some (js ''Cron delivery to Discord requires --channel discord and --to <channelId|user:ID>'')\<rparr>)"
      by (simp add: r deliverResult_no_recipient skipNotice_def recipientRequired_def
          extractSummary_eq js_channel_distinct)
  }
next
  fix res
  assume s: "result (runCronIsolatedAgentTurn w cfg job key) = Inr res \<and> status res = statusSkipped"
  then obtain rc' pl' where
    res: "res = fst (deliverResult w (jobDelivery job) (jobBestEffort job)
                  (jobResolvedDelivery w cfg job) (case pl' of None \<Rightarrow> [] | Some ps \<Rightarrow> ps)
                  (extractSummary (case pl' of None \<Rightarrow> [] | Some ps \<Rightarrow> ps)))"
    using run_skipped [of w cfg job key res] by blast
  from s res have sk: "jobDelivery job \<and> jobBestEffort job \<and>
     \<not> truthy (to (jobResolvedDelivery w cfg job)) \<and>
     (channel (jobResolvedDelivery w cfg job) = js ''whatsapp'' \<or>
      channel (jobResolvedDelivery w cfg job) = js ''telegram'' \<or>
      channel (jobResolvedDelivery w cfg job) = js ''discord'')"
    using deliverResult_skipped by blast
  then have r1: "res = \<lparr>status = statusSkipped,
            summary = Some (skipNotice (channel (jobResolvedDelivery w cfg job))),
            error = None\<rparr>"
    by (simp add: res deliverResult_no_recipient)
  from sk show "jobDelivery job" "jobBestEffort job"
    "\<not> truthy (to (jobResolvedDelivery w cfg job))"
    by simp_all
  from r1 show "error res = None"
    by simp
  from sk r1 show "summary res = Some (js ''Delivery skipped (no WhatsApp recipient).'') \<or>
         summary res = Some (js ''Delivery skipped (no Telegram chatId).'') \<or>
         summary res = Some (js ''Delivery skipped (no Discord destination).'')"
    by (auto simp add: skipNotice_def)
qed

theorem no_recipient_summary_witness:
  "jobDelivery (makeJob (deliverOn (js ''telegram'') None True)) \<and>
   \<not> truthy (to (jobResolvedDelivery (testWorld (Inr (Some [textPayload (js ''hello'')])) None)
        makeCfg (makeJob (deliverOn (js ''telegram'') None True)))) \<and>
   result (runCronIsolatedAgentTurn (testWorld (Inr (Some [textPayload (js ''hello'')])) None)
      makeCfg (makeJob (deliverOn (js ''telegram'') None True)) (js ''cron:job-1'')) =
     Inr \<lparr>status = statusSkipped, summary = Some (js ''Delivery skipped (no Telegram chatId).''),
          error = None\<rparr> \<and>
   result (runCronIsolatedAgentTurn (testWorld (Inr (Some [textPayload (js ''hello'')])) None)
      makeCfg (makeJob (deliverOn (js ''discord'') None False)) (js ''cron:job-1'')) =
     Inr \<lparr>status = statusError, summary = Some (js ''hello''),
          error = Some (js ''Cron delivery to Discord requires --channel discord and --to <channelId|user:ID>'')\<rparr>"
proof -
  have t: "\<not> truthy None"
    by (simp add: truthy_def)
  show ?thesis
    using no_recipient_summary [of makeCfg _
        "testWorld (Inr (Some [textPayload (js ''hello'')])) None" "Some [textPayload (js ''hello'')]"
        "makeJob (deliverOn (js ''telegram'') None True)" "js ''cron:job-1''"]
      no_recipient_summary [of makeCfg _
        "testWorld (Inr (Some [textPayload (js ''hello'')])) None" "Some [textPayload (js ''hello'')]"
        "makeJob (deliverOn (js ''discord'') None False)" "js ''cron:job-1''"]
    by (simp add: assert_makeCfg world_fields job_flags no_recipient_target t hello_summary)
qed

section \<open>C9: session target and payload in the job editor\<close>

lemma trimming_samples:
  "trimmingWhitespace (js ''Daily summary'') = js ''Daily summary''"
  "trimmingWhitespace (js ''Summarize inbox'') = js ''Summarize inbox''"
  "trimmingWhitespace (js ''Cron'') = js ''Cron''"
  "trimmingWhitespace [] = []"
  by (simp_all add: trimmingWhitespace_def js_def isWhitespaceOrNewline_def)

lemma buildPayloadDict_isolated:
  "edSessionTarget ed = targetIsolated \<Longrightarrow>
   buildPayloadDict parseI ed = agentTurnDict (buildAgentTurnPayload parseI ed)"
  by (simp add: buildPayloadDict_def)

lemma buildPayload_checked:
  assumes "checkPairing (edSessionTarget ed) (buildPayloadDict parseI ed) = Some err"
  shows "buildPayload parseD parseI ed =
     (case buildSchedule parseD ed of Inl e \<Rightarrow> Inl e | Inr _ \<Rightarrow> Inl err)"
  using assms by (cases "buildSchedule parseD ed") (simp_all add: buildPayload_def Let_def)

lemma buildPayload_Inr:
  assumes "buildPayload parseD parseI ed = Inr dict"
  shows "checkPairing (edSessionTarget ed) (buildPayloadDict parseI ed) = None"
    and "rootSessionTarget dict = edSessionTarget ed"
    and "rootPayload dict = buildPayloadDict parseI ed"
proof -
  obtain schedule where s: "buildSchedule parseD ed = Inr schedule"
    using assms by (cases "buildSchedule parseD ed") (simp_all add: buildPayload_def Let_def)
  show c: "checkPairing (edSessionTarget ed) (buildPayloadDict parseI ed) = None"
    using assms s
    by (cases "checkPairing (edSessionTarget ed) (buildPayloadDict parseI ed)")
      (simp_all add: buildPayload_def Let_def)
  have "rootSessionTarget dict = edSessionTarget ed \<and>
      rootPayload dict = buildPayloadDict parseI ed"
    using assms s c by (auto simp add: buildPayload_def Let_def split: if_splits)
  then show "rootSessionTarget dict = edSessionTarget ed"
    and "rootPayload dict = buildPayloadDict parseI ed"
    by simp_all
qed

lemma checkPairing_None:
  "checkPairing sessionTarget built = None \<longleftrightarrow>
     (case sessionTarget of targetMain \<Rightarrow> isSystemEvent built
      | targetIsolated \<Rightarrow> isAgentTurn built)"
  by (cases sessionTarget; cases built) (simp_all add: checkPairing_def isAgentTurn_def isSystemEvent_def)

lemma sample_editor_builds:
  "buildPayload Map.empty Map.empty isolatedSystemEventEditor =
     Inr \<lparr>rootEnabled = True, rootSchedule = scheduleAt 1700000000000,
          rootSessionTarget = targetIsolated, rootWakeMode = wakeNextHeartbeat,
          rootPayload = agentTurnDict
            \<lparr>dictMessage = js ''Summarize inbox'', dictThinking = None,
             dictTimeoutSeconds = None, dictDeliver = False, dictChannel = None,
             dictTo = None, dictBestEffortDeliver = None\<rparr>,
          rootName = Some (js ''Daily summary''), rootIsolation = Some (js ''Cron'')\<rparr>"
proof -
  have n: "js ''Daily summary'' \<noteq> []" "js ''Summarize inbox'' \<noteq> []" "js ''Cron'' \<noteq> []"
    by (simp_all add: js_def)
  show ?thesis
    using n
    by (simp add: buildPayload_def buildSchedule_def buildPayloadDict_def checkPairing_def
        buildAgentTurnPayload_def isolatedSystemEventEditor_def trimming_samples
        isAgentTurn_def isSystemEvent_def Let_def)
qed

text \<open>
  C9. Saving validates the pairing of session target and payload before anything is passed
  to \<open>onSave\<close>. The check rejects every payload that is an agent turn when the target is main,
  and every payload that is a system event when the target is isolated, each with its own
  error; it lets the other two combinations pass. For every editor state, when the check
  rejects the payload that was built, \<open>buildPayload\<close> throws (the error of the check, unless
  the schedule was already invalid) and \<open>save\<close> passes nothing to \<open>onSave\<close>; an editor with
  target main and payload kind agent turn is such a state. Every job that \<open>buildPayload\<close>
  returns, and so every job passed to \<open>onSave\<close>, has the target of the editor and the payload
  that was built, and satisfies the invariant: main with a system event, isolated with an
  agent turn.
\<close>

theorem buildPayload_pairing:
  "checkPairing targetMain (agentTurnDict a) =
     Some ''Main session jobs require systemEvent payloads (switch Session target to isolated).'' \<and>
   checkPairing targetIsolated (systemEventDict t) = Some ''Isolated jobs require agentTurn payloads.'' \<and>
   checkPairing targetMain (systemEventDict t) = None \<and>
   checkPairing targetIsolated (agentTurnDict a) = None \<and>
   (\<forall>err. checkPairing (edSessionTarget ed) (buildPayloadDict parseI ed) = Some err \<longrightarrow>
      (\<exists>e. buildPayload parseD parseI ed = Inl e \<and> save parseD parseI ed = (Some e, None)) \<and>
      (\<forall>schedule. buildSchedule parseD ed = Inr schedule \<longrightarrow>
         buildPayload parseD parseI ed = Inl err)) \<and>
   (edSessionTarget ed = targetMain \<and> edPayloadKind ed = kindAgentTurn \<longrightarrow>
      checkPairing (edSessionTarget ed) (buildPayloadDict parseI ed) =
        Some ''Main session jobs require systemEvent payloads (switch Session target to isolated).'') \<and>
   (\<forall>dict. buildPayload parseD parseI ed = Inr dict \<longrightarrow>
      rootSessionTarget dict = edSessionTarget ed \<and>
      rootPayload dict = buildPayloadDict parseI ed \<and> pairingOk dict) \<and>
   (\<forall>dict. snd (save parseD parseI ed) = Some dict \<longrightarrow>
      buildPayload parseD parseI ed = Inr dict \<and> pairingOk dict)"
proof -
  have c: "checkPairing targetMain (agentTurnDict a) =
     Some ''Main session jobs require systemEvent payloads (switch Session target to isolated).''"
    "checkPairing targetIsolated (systemEventDict t) = Some ''Isolated jobs require agentTurn payloads.''"
    "checkPairing targetMain (systemEventDict t) = None"
    "checkPairing targetIsolated (agentTurnDict a) = None"
    by (simp_all add: checkPairing_def isAgentTurn_def isSystemEvent_def)
  have r: "\<forall>err. checkPairing (edSessionTarget ed) (buildPayloadDict parseI ed) = Some err \<longrightarrow>
      (\<exists>e. buildPayload parseD parseI ed = Inl e \<and> save parseD parseI ed = (Some e, None)) \<and>
      (\<forall>schedule. buildSchedule parseD ed = Inr schedule \<longrightarrow>
         buildPayload parseD parseI ed = Inl err)"
  proof (intro allI impI)
    fix err
    assume "checkPairing (edSessionTarget ed) (buildPayloadDict parseI ed) = Some err"
    then have b: "buildPayload parseD parseI ed =
        (case buildSchedule parseD ed of Inl e \<Rightarrow> Inl e | Inr _ \<Rightarrow> Inl err)"
      by (rule buildPayload_checked)
    show "(\<exists>e. buildPayload parseD parseI ed = Inl e \<and> save parseD parseI ed = (Some e, None)) \<and>
      (\<forall>schedule. buildSchedule parseD ed = Inr schedule \<longrightarrow>
         buildPayload parseD parseI ed = Inl err)"
      by (cases "buildSchedule parseD ed") (simp_all add: b save_def)
  qed
  have m: "edSessionTarget ed = targetMain \<and> edPayloadKind ed = kindAgentTurn \<longrightarrow>
      checkPairing (edSessionTarget ed) (buildPayloadDict parseI ed) =
        Some ''Main session jobs require systemEvent payloads (switch Session target to isolated).''"
    by (simp add: buildPayloadDict_def checkPairing_def isAgentTurn_def)
  have d: "\<forall>dict. buildPayload parseD parseI ed = Inr dict \<longrightarrow>
      rootSessionTarget dict = edSessionTarget ed \<and>
      rootPayload dict = buildPayloadDict parseI ed \<and> pairingOk dict"
  proof (intro allI impI)
    fix dict
    assume b: "buildPayload parseD parseI ed = Inr dict"
    from buildPayload_Inr [OF b] show "rootSessionTarget dict = edSessionTarget ed \<and>
      rootPayload dict = buildPayloadDict parseI ed \<and> pairingOk dict"
      by (auto simp add: pairingOk_def checkPairing_None split: CronSessionTarget.splits)
  qed
  have s: "\<forall>dict. snd (save parseD parseI ed) = Some dict \<longrightarrow>
      buildPayload parseD parseI ed = Inr dict \<and> pairingOk dict"
    using d by (cases "buildPayload parseD parseI ed") (simp_all add: save_def)
  from c r m d s show ?thesis
    by blast
qed

theorem buildPayload_pairing_witness:
  "edSessionTarget mainAgentTurnEditor = targetMain \<and>
   edPayloadKind mainAgentTurnEditor = kindAgentTurn \<and>
   buildPayload Map.empty Map.empty mainAgentTurnEditor =
     Inl ''Main session jobs require systemEvent payloads (switch Session target to isolated).'' \<and>
   save Map.empty Map.empty mainAgentTurnEditor =
     (Some ''Main session jobs require systemEvent payloads (switch Session target to isolated).'',
      None) \<and>
   (\<exists>dict. buildPayload Map.empty Map.empty isolatedSystemEventEditor = Inr dict \<and>
      rootSessionTarget dict = targetIsolated \<and> pairingOk dict)"
proof -
  have m: "edSessionTarget mainAgentTurnEditor = targetMain"
    "edPayloadKind mainAgentTurnEditor = kindAgentTurn"
    by (simp_all add: mainAgentTurnEditor_def)
  have i: "edSessionTarget isolatedSystemEventEditor = targetIsolated"
    by (simp add: isolatedSystemEventEditor_def)
  have sch: "buildSchedule Map.empty mainAgentTurnEditor = Inr (scheduleAt 1700000000000)"
    by (simp add: buildSchedule_def mainAgentTurnEditor_def isolatedSystemEventEditor_def)
  have b: "buildPayload Map.empty Map.empty mainAgentTurnEditor =
     Inl ''Main session jobs require systemEvent payloads (switch Session target to isolated).''"
    using buildPayload_pairing [of "buildAgentTurnPayload Map.empty mainAgentTurnEditor" "[]"
        mainAgentTurnEditor Map.empty Map.empty] m sch
    by simp
  obtain dict where d: "buildPayload Map.empty Map.empty isolatedSystemEventEditor = Inr dict"
    using sample_editor_builds by blast
  have p: "rootSessionTarget dict = targetIsolated \<and> pairingOk dict"
    using buildPayload_pairing [of "buildAgentTurnPayload Map.empty isolatedSystemEventEditor" "[]"
        isolatedSystemEventEditor Map.empty Map.empty] d i
    by simp
  from m b d p show ?thesis
    by (simp add: save_def)
qed

end
